theory Spec2Isabelle
  imports Complex_Main
begin

section \<open>PyGeodesy, module utmups: UTM/UPS dispatch, range tables and validation\<close>

text \<open>
  A shallow embedding of \<^verbatim>\<open>src/pygeodesy/utmups.py\<close>. The module sits on top of two
  projection engines (\<^verbatim>\<open>pygeodesy.utm\<close>, \<^verbatim>\<open>pygeodesy.ups\<close>) and on
  \<^verbatim>\<open>pygeodesy.utmupsBase\<close>, none of which is part of the sources at hand. Functions of
  those modules (\<^verbatim>\<open>_to3zBhp\<close>, \<^verbatim>\<open>utmZoneBand5\<close>, \<^verbatim>\<open>upsZoneBand5\<close>, \<^verbatim>\<open>parseUTM5\<close>,
  \<^verbatim>\<open>parseUPS5\<close>, the classes \<^verbatim>\<open>Utm\<close> and \<^verbatim>\<open>Ups\<close>) are parameters of the functions
  below, in the order the module imports them; the few constants of theirs are written
  down from the specification and marked as such.

  Python raises; here a function returns \<open>exc + 'a\<close>, with \<open>Inl\<close> for the raised error.
\<close>

subsection \<open>Python values\<close>

text \<open>
  The classes of the errors that occur. \<^verbatim>\<open>UTMUPSError\<close> is defined by the module; the
  others are imported or built in. An \<^verbatim>\<open>except C\<close> clause is modelled as a test for the
  class \<open>C\<close> itself: none of the classes the module catches is a base class of another
  class named here.
\<close>

datatype exc_class =
    UTMUPSError | UTMError | UPSError | RangeError
  | ValueError | TypeError | OverflowError | OtherError string

text \<open>
  A Python float: a finite value (as a real number; only comparisons against exactly
  representable bounds are made of it), an infinity or a NaN.
\<close>

datatype pyfloat = Float real | PosInf | NegInf | NaN

text \<open>
  An easting, northing, latitude or longitude as the caller hands it over, seen through
  what the built-in \<^verbatim>\<open>float()\<close> makes of it: \<open>Number f\<close> is an int, a float or a numeric
  string converted to \<open>f\<close>; \<open>NoFloat c m\<close> is an object on which \<^verbatim>\<open>float()\<close> raises an error
  of class \<open>c\<close> with message \<open>m\<close>: \<^verbatim>\<open>TypeError\<close> for \<^verbatim>\<open>None\<close>, \<^verbatim>\<open>ValueError\<close> for
  \<^verbatim>\<open>'abc'\<close>, \<^verbatim>\<open>OverflowError\<close> for an int beyond the range of a float such as
  \<^verbatim>\<open>10**400\<close>.
\<close>

datatype pyval = Number pyfloat | NoFloat exc_class string

fun py_float :: "pyval \<Rightarrow> (exc_class \<times> string) + pyfloat" where
  "py_float (Number f) = Inr f"
| "py_float (NoFloat c m) = Inl (c, m)"

text \<open>The chained comparison \<^verbatim>\<open>lo <= f <= hi\<close>; every comparison with a NaN is false.\<close>

fun between :: "real \<Rightarrow> pyfloat \<Rightarrow> real \<Rightarrow> bool" where
  "between lo (Float r) hi = (lo \<le> r \<and> r \<le> hi)"
| "between lo PosInf hi = False"
| "between lo NegInf hi = False"
| "between lo NaN hi = False"

text \<open>A zone is an int or a str (\<^verbatim>\<open>31\<close>, \<^verbatim>\<open>'31U'\<close>, \<^verbatim>\<open>'00'\<close>).\<close>

datatype pyzone = ZInt int | ZStr string

text \<open>
  \<^verbatim>\<open>s.find(sub)\<close>: the lowest index at which \<open>sub\<close> occurs in \<open>s\<close>, or \<open>-1\<close>.
\<close>

fun find_from :: "string \<Rightarrow> string \<Rightarrow> int \<Rightarrow> int" where
  "find_from [] sub k = (if sub = [] then k else - 1)"
| "find_from (c # t) sub k =
     (if take (length sub) (c # t) = sub then k else find_from t sub (k + 1))"

definition find_py :: "string \<Rightarrow> string \<Rightarrow> int" where
  "find_py s sub = find_from s sub 0"

subsection \<open>Coordinates and errors\<close>

text \<open>
  What \<^verbatim>\<open>utmupsValidate\<close> can be handed: an instance of the class \<^verbatim>\<open>Utm\<close> or \<^verbatim>\<open>Ups\<close>
  (attributes zone, hemisphere, easting, northing, band and falsed; datum and name are
  never read by this module), a \<^verbatim>\<open>UtmUps5Tuple\<close> (zone, hemipole, easting, northing,
  band), a \<^verbatim>\<open>UtmUps8Tuple\<close> (the same, then datum, convergence and scale), or anything
  else, such as a plain tuple of numbers.
\<close>

datatype coord =
    Utm pyzone string pyval pyval string bool
  | Ups pyzone string pyval pyval string bool
  | UtmUps5Tuple pyzone string pyval pyval string
  | UtmUps8Tuple pyzone string pyval pyval string string pyval pyval
  | Other "pyval list"

text \<open>
  An error object: its class and what it was built from. The messages the module
  formats are kept as their parts.
  \<^item> \<open>Message m\<close>: an error of a collaborator or of a built-in, \<^verbatim>\<open>str(x)\<close> being \<open>m\<close>;
  \<^item> \<open>Isnot coord names\<close>: \<^verbatim>\<open>_IsnotError(*names, Error=Error, coord=coord)\<close>;
  \<^item> \<open>Invalid U z B h zone band hemi\<close>:
    \<^verbatim>\<open>Error(coord='%s(%s%s %s)' % (U, z,B, h), zone=zone, band=band, hemisphere=hemi)\<close>;
  \<^item> \<open>Outside ename en U lo hi\<close>: \<^verbatim>\<open>Error(ename, en, txt=t)\<close> where \<open>t\<close> is
    \<^verbatim>\<open>'outside U range [lo hi]'\<close>;
  \<^item> \<open>Unparsed s x\<close>: \<^verbatim>\<open>UTMUPSError(strUTMUPS=s, txt=str(x))\<close>.
\<close>

datatype exc = Exc (cls: exc_class) (info: einfo)
and einfo =
    Message string
  | Isnot coord "string list"
  | Invalid string pyzone string string pyzone string string
  | Outside string pyval string real real
  | Unparsed string exc

text \<open>
  The type of \<^verbatim>\<open>_to3zBhp(zone, band, hemipole=...)\<close> of \<^verbatim>\<open>utmupsBase\<close>: it raises or
  returns the normalized zone, band and hemisphere/pole.
\<close>

type_synonym to3zBhp_t = "pyzone \<Rightarrow> string \<Rightarrow> string \<Rightarrow> exc + (pyzone \<times> string \<times> string)"

subsection \<open>Imported constants\<close>

text \<open>
  Modelled from the spec: the constants \<^verbatim>\<open>_MGRS_TILE\<close>, \<^verbatim>\<open>_UPS_ZONE\<close>, \<^verbatim>\<open>_UPS_ZONE_STR\<close>,
  \<^verbatim>\<open>_UTMUPS_ZONE_MIN\<close> and \<^verbatim>\<open>_UTMUPS_ZONE_MAX\<close> of \<^verbatim>\<open>utmupsBase\<close>, which is missing from
  the sources. The specification has: a tile is a 100,000-meter unit; the UPS zone is
  the reserved value 0, with the string form "00", next to the 60 numbered UTM zones.
\<close>

definition MGRS_TILE :: real where "MGRS_TILE = 100000"
definition UPS_ZONE :: int where "UPS_ZONE = 0"
definition UPS_ZONE_STR :: string where "UPS_ZONE_STR = ''00''"
definition UTMUPS_ZONE_MIN :: int where "UTMUPS_ZONE_MIN = UPS_ZONE"
definition UTMUPS_ZONE_MAX :: int where "UTMUPS_ZONE_MAX = 60"

text \<open>
  Modelled from the spec: the band alphabets \<^verbatim>\<open>_Bands\<close> of the two engines, missing from
  the sources. The specification has the UPS polar bands as exactly A, B, Y and Z and the
  UTM latitude bands as the other band letters; the docstring of \<^verbatim>\<open>UtmUps\<close> gives the
  latter as C, D .. W, X. The letters I and O, which no grid reference uses, are left
  out; nothing below depends on them. A band is a str, \<^verbatim>\<open>B in u._Bands\<close> is membership
  of the alphabet.
\<close>

definition ups_Bands :: "string list" where
  "ups_Bands = [''A'', ''B'', ''Y'', ''Z'']"

definition utm_Bands :: "string list" where
  "utm_Bands = [''C'', ''D'', ''E'', ''F'', ''G'', ''H'', ''J'', ''K'', ''L'', ''M'',
                ''N'', ''P'', ''Q'', ''R'', ''S'', ''T'', ''U'', ''V'', ''W'', ''X'']"

text \<open>
  Modelled from the spec: the interned strings \<^verbatim>\<open>_NS_\<close>, \<^verbatim>\<open>_UPS_\<close>, \<^verbatim>\<open>_UTM_\<close>,
  \<^verbatim>\<open>_MGRS_\<close>, \<^verbatim>\<open>_easting_\<close> and \<^verbatim>\<open>_northing_\<close> of \<^verbatim>\<open>pygeodesy.interns\<close>, missing from the
  sources; each is the string its name spells. The hemisphere or pole is one of the
  letters N and S.
\<close>

definition NS :: string where "NS = ''NS''"
definition UPS_str :: string where "UPS_str = ''UPS''"
definition UTM_str :: string where "UTM_str = ''UTM''"
definition MGRS_str :: string where "MGRS_str = ''MGRS''"
definition easting_str :: string where "easting_str = ''easting''"
definition northing_str :: string where "northing_str = ''northing''"

subsection \<open>Range tables\<close>

definition UPS_N_MAX :: real where "UPS_N_MAX = 27 * MGRS_TILE"
definition UPS_N_MIN :: real where "UPS_N_MIN = 13 * MGRS_TILE"
definition UPS_S_MAX :: real where "UPS_S_MAX = 32 * MGRS_TILE"
definition UPS_S_MIN :: real where "UPS_S_MIN = 8 * MGRS_TILE"

definition UTM_C_MAX :: real where "UTM_C_MAX = 9 * MGRS_TILE"
definition UTM_C_MIN :: real where "UTM_C_MIN = 1 * MGRS_TILE"
definition UTM_N_MAX :: real where "UTM_N_MAX = 95 * MGRS_TILE"
definition UTM_N_MIN :: real where "UTM_N_MIN = 0 * MGRS_TILE"
definition UTM_S_MAX :: real where "UTM_S_MAX = 100 * MGRS_TILE"
definition UTM_S_MIN :: real where "UTM_S_MIN = 10 * MGRS_TILE"

text \<open>South minus North UTM northing.\<close>

definition UTM_N_SHIFT :: real where "UTM_N_SHIFT = UTM_S_MAX - UTM_N_MIN"

text \<open>
  The classes \<^verbatim>\<open>_UpsMinMax\<close> and \<^verbatim>\<open>_UtmMinMax\<close> hold four 2-tuples each, indexed by
  0 for North and 1 for South.
\<close>

record minmax =
  eMax :: "real list"
  eMin :: "real list"
  nMax :: "real list"
  nMin :: "real list"

definition UpsMinMax :: minmax where
  "UpsMinMax = \<lparr>eMax = [UPS_N_MAX, UPS_S_MAX],
                eMin = [UPS_N_MIN, UPS_S_MIN],
                nMax = [UPS_N_MAX, UPS_S_MAX],
                nMin = [UPS_N_MIN, UPS_S_MIN]\<rparr>"

definition UtmMinMax :: minmax where
  "UtmMinMax = \<lparr>eMax = [UTM_C_MAX, UTM_C_MAX],
                eMin = [UTM_C_MIN, UTM_C_MIN],
                nMax = [UTM_N_MAX, UTM_N_MAX + UTM_N_SHIFT],
                nMin = [UTM_S_MIN - UTM_N_SHIFT, UTM_S_MIN]\<rparr>"

subsection \<open>The validator\<close>

text \<open>
  The nested function \<^verbatim>\<open>_en(en, lo, hi, ename)\<close> of \<^verbatim>\<open>utmupsValidate\<close>, with the two
  names it takes from the enclosing scope, \<^verbatim>\<open>Error\<close> and \<^verbatim>\<open>U\<close>, as its first arguments.
  Only \<^verbatim>\<open>float(en)\<close> stands inside the \<^verbatim>\<open>try\<close>; a \<^verbatim>\<open>TypeError\<close> or \<^verbatim>\<open>ValueError\<close> is
  passed over and ends in the same \<^verbatim>\<open>raise\<close> as a value out of range, any other error
  of \<^verbatim>\<open>float\<close> leaves the function as it is.
\<close>

definition en_check :: "exc_class \<Rightarrow> string \<Rightarrow> pyval \<Rightarrow> real \<Rightarrow> real \<Rightarrow> string \<Rightarrow> exc + unit" where
  "en_check Error U en lo hi ename =
     (case py_float en of
        Inr f \<Rightarrow>
          if between lo f hi then Inr ()
          else Inl (Exc Error (Outside ename en U lo hi))
      | Inl (c, m) \<Rightarrow>
          if c = TypeError \<or> c = ValueError
          then Inl (Exc Error (Outside ename en U lo hi))
          else Inl (Exc c (Message m)))"

text \<open>
  The \<^verbatim>\<open>isinstance\<close> chain at the head of \<^verbatim>\<open>utmupsValidate\<close>: zone, hemisphere/pole,
  easting, northing, band and \<^verbatim>\<open>enMM\<close>, which is the attribute \<^verbatim>\<open>coord.falsed\<close> of an
  object and the argument \<^verbatim>\<open>falsed\<close> for a tuple; \<open>None\<close> for any other shape.
\<close>

fun coord6 :: "coord \<Rightarrow> bool \<Rightarrow> (pyzone \<times> string \<times> pyval \<times> pyval \<times> string \<times> bool) option" where
  "coord6 (Utm zone hemisphere easting northing band coord_falsed) falsed =
     Some (zone, hemisphere, easting, northing, band, coord_falsed)"
| "coord6 (Ups zone hemisphere easting northing band coord_falsed) falsed =
     Some (zone, hemisphere, easting, northing, band, coord_falsed)"
| "coord6 (UtmUps5Tuple zone hemipole easting northing band) falsed =
     Some (zone, hemipole, easting, northing, band, falsed)"
| "coord6 (UtmUps8Tuple zone hemipole easting northing band datum convergence scale) falsed =
     Some (zone, hemipole, easting, northing, band, falsed)"
| "coord6 (Other items) falsed = None"

text \<open>
  Modelled from the spec: \<^verbatim>\<open>_IsnotError\<close> of \<^verbatim>\<open>pygeodesy.errors\<close>, missing from the
  sources. The specification has an input of any other shape fail with a type-mismatch
  error naming the acceptable shapes; the call passes \<^verbatim>\<open>Error=Error\<close>, the value as
  \<^verbatim>\<open>coord=coord\<close> and the names of the four acceptable classes, so the error is taken
  to be of the class \<^verbatim>\<open>Error\<close> and to hold the value and these names.
\<close>

definition acceptable :: "string list" where
  "acceptable = [''Utm'', ''Ups'', ''UtmUps5Tuple'', ''UtmUps8Tuple'']"

text \<open>
  \<^verbatim>\<open>utmupsValidate(coord, falsed=False, MGRS=False, Error=UTMUPSError)\<close>; it returns
  \<^verbatim>\<open>None\<close>, here \<open>Inr ()\<close>, if validation passed. The normalized zone is compared with
  ints; where it is a str, \<^verbatim>\<open>z == _UPS_ZONE\<close> is false and \<^verbatim>\<open>z < _UTMUPS_ZONE_MIN\<close>,
  reached only if \<^verbatim>\<open>i < 0\<close> is false, is a \<^verbatim>\<open>TypeError\<close> of Python 3. The index \<open>i\<close> is
  0 or 1 wherever a table is read (lemma \<open>find_py_NS_cases\<close>).
\<close>

definition utmupsValidate :: "to3zBhp_t \<Rightarrow> coord \<Rightarrow> bool \<Rightarrow> bool \<Rightarrow> exc_class \<Rightarrow> exc + unit" where
  "utmupsValidate to3zBhp coord falsed MGRS Error =
     (case coord6 coord falsed of
        None \<Rightarrow> Inl (Exc Error (Isnot coord acceptable))
      | Some (zone, hemi, e, n, band, enMM) \<Rightarrow>
          (case to3zBhp zone band hemi of
             Inl x \<Rightarrow> Inl x
           | Inr (z, B, h) \<Rightarrow>
               (let (U, M, Bands) =
                      (if z = ZInt UPS_ZONE then (UPS_str, UpsMinMax, ups_Bands)
                       else (UTM_str, UtmMinMax, utm_Bands));
                    (U, s) = (if MGRS then (MGRS_str, MGRS_TILE) else (U, 0));
                    i = find_py NS h
                in if i < 0 then Inl (Exc Error (Invalid U z B h zone band hemi))
                   else
                     (case z of
                        ZStr str \<Rightarrow> Inl (Exc TypeError (Message ''str < int''))
                      | ZInt zi \<Rightarrow>
                          if zi < UTMUPS_ZONE_MIN \<or> zi > UTMUPS_ZONE_MAX \<or> B \<notin> set Bands
                          then Inl (Exc Error (Invalid U z B h zone band hemi))
                          else if enMM then
                            (case en_check Error U e (eMin M ! nat i - s) (eMax M ! nat i + s)
                                    easting_str of
                               Inl x \<Rightarrow> Inl x
                             | Inr none \<Rightarrow>
                                 en_check Error U n (nMin M ! nat i - s) (nMax M ! nat i + s)
                                   northing_str)
                          else Inr ()))))"

text \<open>
  What \<^verbatim>\<open>utmupsValidateOK\<close> returns: the value \<^verbatim>\<open>ok\<close> it was given, or the error object.
\<close>

datatype 'ok returned = Passed 'ok | Failed exc

text \<open>
  \<^verbatim>\<open>utmupsValidateOK(coord, falsed=False, ok=True)\<close> calls \<^verbatim>\<open>utmupsValidate\<close> with the
  defaults for \<^verbatim>\<open>MGRS\<close> and \<^verbatim>\<open>Error\<close> and catches \<^verbatim>\<open>UTMUPSError\<close>.
\<close>

definition utmupsValidateOK :: "to3zBhp_t \<Rightarrow> coord \<Rightarrow> bool \<Rightarrow> 'ok \<Rightarrow> exc + 'ok returned" where
  "utmupsValidateOK to3zBhp coord falsed ok =
     (case utmupsValidate to3zBhp coord falsed False UTMUPSError of
        Inr none \<Rightarrow> Inr (Passed ok)
      | Inl x \<Rightarrow> if cls x = UTMUPSError then Inr (Failed x) else Inl x)"

subsection \<open>The classifier, the parser and the factory\<close>

text \<open>
  \<^verbatim>\<open>utmupsZoneBand5(lat, lon, cmoff=False)\<close>. \<open>falls_back\<close> is the condition under which
  the \<^verbatim>\<open>except RangeError\<close> clause is entered.
\<close>

definition falls_back :: "('a \<Rightarrow> 'a \<Rightarrow> bool \<Rightarrow> exc + 'r) \<Rightarrow> 'a \<Rightarrow> 'a \<Rightarrow> bool \<Rightarrow> bool" where
  "falls_back utmZoneBand5 lat lon cmoff =
     (case utmZoneBand5 lat lon cmoff of Inl x \<Rightarrow> cls x = RangeError | Inr r \<Rightarrow> False)"

definition utmupsZoneBand5 ::
  "('a \<Rightarrow> 'a \<Rightarrow> bool \<Rightarrow> exc + 'r) \<Rightarrow> ('a \<Rightarrow> 'a \<Rightarrow> exc + 'r) \<Rightarrow> 'a \<Rightarrow> 'a \<Rightarrow> bool \<Rightarrow> exc + 'r" where
  "utmupsZoneBand5 utmZoneBand5 upsZoneBand5 lat lon cmoff =
     (if falls_back utmZoneBand5 lat lon cmoff then upsZoneBand5 lat lon
      else utmZoneBand5 lat lon cmoff)"

text \<open>
  \<^verbatim>\<open>parseUTMUPS5(strUTMUPS, datum, Utm, Ups, name)\<close>: the inner \<^verbatim>\<open>try\<close> catches
  \<^verbatim>\<open>UTMError\<close> around the UTM parser, the outer one \<^verbatim>\<open>UTMError\<close> and \<^verbatim>\<open>UPSError\<close> around
  both.
\<close>

definition parseUTMUPS5 ::
  "(string \<Rightarrow> 'd \<Rightarrow> 'cu \<Rightarrow> string \<Rightarrow> exc + 'u) \<Rightarrow> (string \<Rightarrow> 'd \<Rightarrow> 'cp \<Rightarrow> string \<Rightarrow> exc + 'u) \<Rightarrow>
   string \<Rightarrow> 'd \<Rightarrow> 'cu \<Rightarrow> 'cp \<Rightarrow> string \<Rightarrow> exc + 'u" where
  "parseUTMUPS5 parseUTM5 parseUPS5 strUTMUPS datum Utm_class Ups_class name =
     (case (case parseUTM5 strUTMUPS datum Utm_class name of
              Inl x \<Rightarrow>
                if cls x = UTMError then parseUPS5 strUTMUPS datum Ups_class name else Inl x
            | Inr u \<Rightarrow> Inr u) of
        Inl x \<Rightarrow>
          if cls x = UTMError \<or> cls x = UPSError
          then Inl (Exc UTMUPSError (Unparsed strUTMUPS x))
          else Inl x
      | Inr u \<Rightarrow> Inr u)"

text \<open>
  \<^verbatim>\<open>UtmUps(zone, hemipole, easting, northing, band, datum, falsed, name)\<close>. The two
  classes are called alike, so they share a type.
\<close>

type_synonym ('d, 'u) engine =
  "pyzone \<Rightarrow> string \<Rightarrow> pyval \<Rightarrow> pyval \<Rightarrow> string \<Rightarrow> 'd \<Rightarrow> bool \<Rightarrow> string \<Rightarrow> exc + 'u"

definition UtmUps ::
  "to3zBhp_t \<Rightarrow> ('d, 'u) engine \<Rightarrow> ('d, 'u) engine \<Rightarrow>
   pyzone \<Rightarrow> string \<Rightarrow> pyval \<Rightarrow> pyval \<Rightarrow> string \<Rightarrow> 'd \<Rightarrow> bool \<Rightarrow> string \<Rightarrow> exc + 'u" where
  "UtmUps to3zBhp Utm_class Ups_class zone hemipole easting northing band datum falsed name =
     (case to3zBhp zone band hemipole of
        Inl x \<Rightarrow> Inl x
      | Inr (z, B, hp) \<Rightarrow>
          (let U = (if z \<in> set [ZInt UPS_ZONE, ZStr UPS_ZONE_STR] then Ups_class else Utm_class)
           in U z hp easting northing B datum falsed name))"

subsection \<open>Names for the choices of the validator\<close>

text \<open>
  What \<^verbatim>\<open>utmupsValidate\<close> chooses once the zone is normalized to an int \<open>z\<close>: the table
  \<open>M\<close>, the band alphabet of the module \<open>u\<close>, the name \<open>U\<close> and the widening \<open>s\<close>. The
  statements below are written with them; lemma \<open>utmupsValidate_normalized\<close> ties them to
  the function.
\<close>

definition M_of :: "int \<Rightarrow> minmax" where
  "M_of z = (if z = UPS_ZONE then UpsMinMax else UtmMinMax)"

definition Bands_of :: "int \<Rightarrow> string list" where
  "Bands_of z = (if z = UPS_ZONE then ups_Bands else utm_Bands)"

definition U_of :: "int \<Rightarrow> bool \<Rightarrow> string" where
  "U_of z MGRS = (if MGRS then MGRS_str else if z = UPS_ZONE then UPS_str else UTM_str)"

definition s_of :: "bool \<Rightarrow> real" where
  "s_of MGRS = (if MGRS then MGRS_TILE else 0)"

text \<open>The condition under which the zone, band and hemisphere are refused.\<close>

definition inconsistent :: "int \<Rightarrow> string \<Rightarrow> string \<Rightarrow> bool" where
  "inconsistent z B h =
     (find_py NS h < 0 \<or> z < UTMUPS_ZONE_MIN \<or> z > UTMUPS_ZONE_MAX \<or> B \<notin> set (Bands_of z))"

subsection \<open>Instances of the collaborators, for the examples\<close>

text \<open>
  Modelled from the spec: \<^verbatim>\<open>_to3zBhp\<close> of \<^verbatim>\<open>utmupsBase\<close>, missing from the sources, on
  input that is in normal form already, an int zone with its band and hemisphere given
  as upper-case letters: there is nothing to normalize and the three are returned. A
  zone given as a str is not covered by this instance, which raises for it. The
  instance serves the examples only; the theorems hold for every normalizer.
\<close>

definition to3zBhp_normal :: to3zBhp_t where
  "to3zBhp_normal zone band hemipole =
     (case zone of
        ZInt z \<Rightarrow> Inr (ZInt z, band, hemipole)
      | ZStr s \<Rightarrow> Inl (Exc ValueError (Message s)))"

text \<open>
  Modelled from the spec: the classifiers \<^verbatim>\<open>utmZoneBand5\<close> and \<^verbatim>\<open>upsZoneBand5\<close> of the two
  engines, missing from the sources, as far as the docstring of \<^verbatim>\<open>utmupsZoneBand5\<close> and
  sections 4.2, 6 and 8 of the specification describe them. \<open>rangerrors\<close> is the setting
  of strict range checking. The docstring has a \<^verbatim>\<open>ValueError\<close> for an invalid lat or lon
  and a \<^verbatim>\<open>RangeError\<close> for a lat or lon outside the valid range when \<^verbatim>\<open>rangerrors\<close> is
  set; otherwise the value is clipped. UTM covers the latitudes from -80 up to, not
  including, 84 degrees and fails with a \<^verbatim>\<open>RangeError\<close> outside; UPS takes any latitude
  and returns the zone 0 and the nearer pole. The zone and band are those of the plain
  grid, 6 degree zones and 8 degree bands with X ending at 84 degrees, without the
  exceptions around Norway; \<open>cmoff\<close> is not used.
\<close>

definition valid_angle :: "real \<Rightarrow> pyval \<Rightarrow> bool" where
  "valid_angle limit v = (case v of Number (Float d) \<Rightarrow> \<bar>d\<bar> \<le> limit | _ \<Rightarrow> False)"

definition clip :: "bool \<Rightarrow> string \<Rightarrow> real \<Rightarrow> pyval \<Rightarrow> exc + real" where
  "clip rangerrors name limit v =
     (case v of
        Number (Float d) \<Rightarrow>
          if \<bar>d\<bar> \<le> limit then Inr d
          else if rangerrors then Inl (Exc RangeError (Message name))
          else Inr (if d < 0 then - limit else limit)
      | _ \<Rightarrow> Inl (Exc ValueError (Message name)))"

type_synonym zb5 = "pyzone \<times> string \<times> string \<times> real \<times> real"

definition utmZoneBand5_doc :: "bool \<Rightarrow> pyval \<Rightarrow> pyval \<Rightarrow> bool \<Rightarrow> exc + zb5" where
  "utmZoneBand5_doc rangerrors lat lon cmoff =
     (case clip rangerrors ''lat'' 90 lat of
        Inl x \<Rightarrow> Inl x
      | Inr a \<Rightarrow>
          (case clip rangerrors ''lon'' 180 lon of
             Inl x \<Rightarrow> Inl x
           | Inr b \<Rightarrow>
               if a < - 80 \<or> 84 \<le> a then Inl (Exc RangeError (Message ''outside UTM range''))
               else Inr (ZInt (\<lfloor>(b + 180) / 6\<rfloor> mod 60 + 1),
                         utm_Bands ! nat (min 19 \<lfloor>(a + 80) / 8\<rfloor>),
                         if a < 0 then ''S'' else ''N'', a, b)))"

definition upsZoneBand5_doc :: "bool \<Rightarrow> pyval \<Rightarrow> pyval \<Rightarrow> exc + zb5" where
  "upsZoneBand5_doc rangerrors lat lon =
     (case clip rangerrors ''lat'' 90 lat of
        Inl x \<Rightarrow> Inl x
      | Inr a \<Rightarrow>
          (case clip rangerrors ''lon'' 180 lon of
             Inl x \<Rightarrow> Inl x
           | Inr b \<Rightarrow>
               Inr (ZInt UPS_ZONE,
                    if a < 0 then (if b < 0 then ''A'' else ''B'')
                    else (if b < 0 then ''Y'' else ''Z''),
                    if a < 0 then ''S'' else ''N'', a, b)))"

section \<open>Properties\<close>

subsection \<open>The range tables\<close>

lemmas tile_defs = MGRS_TILE_def UPS_N_MAX_def UPS_N_MIN_def UPS_S_MAX_def UPS_S_MIN_def
  UTM_C_MAX_def UTM_C_MIN_def UTM_N_MAX_def UTM_N_MIN_def UTM_S_MAX_def UTM_S_MIN_def
  UTM_N_SHIFT_def

text \<open>
  Claim C1, as the code has it. The UTM table has easting bounds of 1 and 9 tiles for
  both hemispheres. Its northing bounds for the Northern hemisphere are -90 and 95
  tiles: the minimum is \<^verbatim>\<open>_UTM_S_MIN - _UTM_N_SHIFT\<close>, not \<^verbatim>\<open>_UTM_N_MIN\<close>. The Southern
  bounds are the Northern ones shifted by \<^verbatim>\<open>_UTM_N_SHIFT = _UTM_S_MAX - _UTM_N_MIN\<close>,
  which is 100 tiles, giving 10 and 195 tiles. The Southern bounds and the Northern
  maximum are positive, the Northern minimum is negative.
\<close>

theorem UtmMinMax_table:
  "eMin UtmMinMax = [1 * MGRS_TILE, 1 * MGRS_TILE] \<and>
   eMax UtmMinMax = [9 * MGRS_TILE, 9 * MGRS_TILE] \<and>
   nMin UtmMinMax = [- 90 * MGRS_TILE, 10 * MGRS_TILE] \<and>
   nMax UtmMinMax = [95 * MGRS_TILE, 195 * MGRS_TILE] \<and>
   UTM_N_SHIFT = UTM_S_MAX - UTM_N_MIN \<and> UTM_N_SHIFT = 100 * MGRS_TILE \<and>
   nMin UtmMinMax ! 1 = nMin UtmMinMax ! 0 + UTM_N_SHIFT \<and>
   nMax UtmMinMax ! 1 = nMax UtmMinMax ! 0 + UTM_N_SHIFT \<and>
   0 < nMin UtmMinMax ! 1 \<and> 0 < nMax UtmMinMax ! 1 \<and> 0 < nMax UtmMinMax ! 0 \<and>
   nMin UtmMinMax ! 0 < 0"
  by (simp add: UtmMinMax_def tile_defs)

text \<open>
  Claim C1 as stated fails: the Northern northing minimum is -9,000,000 m, not 0, the
  shift is 10,000,000 m, which is 100 tiles and not 100 - (-5) tiles, and not every
  northing bound is positive.
\<close>

theorem UtmMinMax_counterexample:
  "nMin UtmMinMax ! 0 = - 9000000 \<and> UTM_N_SHIFT = 10000000 \<and>
   \<not> (nMin UtmMinMax ! 0 = 0 * MGRS_TILE \<and> nMax UtmMinMax ! 0 = 95 * MGRS_TILE \<and>
      nMin UtmMinMax ! 1 = nMin UtmMinMax ! 0 + (100 - (- 5)) * MGRS_TILE \<and>
      nMax UtmMinMax ! 1 = nMax UtmMinMax ! 0 + (100 - (- 5)) * MGRS_TILE \<and>
      0 < nMin UtmMinMax ! 0 \<and> 0 < nMin UtmMinMax ! 1)"
  by (simp add: UtmMinMax_def tile_defs)

subsection \<open>The validator, step by step\<close>

lemma find_py_NS_cases: "find_py NS h = - 1 \<or> find_py NS h = 0 \<or> find_py NS h = 1"
  by (simp add: find_py_def NS_def)

lemma find_py_NS_letter:
  "find_py NS [c] = (if c = CHR ''N'' then 0 else if c = CHR ''S'' then 1 else - 1)"
  by (simp add: find_py_def NS_def)

lemma find_py_NS_N: "find_py NS ''N'' = 0"
  by (simp add: find_py_def NS_def)

lemma find_py_NS_S: "find_py NS ''S'' = 1"
  by (simp add: find_py_def NS_def)

lemma utmupsValidate_shape:
  "coord6 coord falsed = None \<Longrightarrow>
   utmupsValidate to3zBhp coord falsed MGRS Error = Inl (Exc Error (Isnot coord acceptable))"
  by (simp add: utmupsValidate_def)

lemma utmupsValidate_unnormalized:
  "coord6 coord falsed = Some (zone, hemi, e, n, band, enMM) \<Longrightarrow>
   to3zBhp zone band hemi = Inl x \<Longrightarrow>
   utmupsValidate to3zBhp coord falsed MGRS Error = Inl x"
  by (simp add: utmupsValidate_def)

lemma utmupsValidate_normalized:
  assumes "coord6 coord falsed = Some (zone, hemi, e, n, band, enMM)"
    and "to3zBhp zone band hemi = Inr (ZInt z, B, h)"
  shows "utmupsValidate to3zBhp coord falsed MGRS Error =
     (if inconsistent z B h
      then Inl (Exc Error (Invalid (U_of z MGRS) (ZInt z) B h zone band hemi))
      else if enMM then
        (case en_check Error (U_of z MGRS) e
                (eMin (M_of z) ! nat (find_py NS h) - s_of MGRS)
                (eMax (M_of z) ! nat (find_py NS h) + s_of MGRS) easting_str of
           Inl x \<Rightarrow> Inl x
         | Inr none \<Rightarrow>
             en_check Error (U_of z MGRS) n
               (nMin (M_of z) ! nat (find_py NS h) - s_of MGRS)
               (nMax (M_of z) ! nat (find_py NS h) + s_of MGRS) northing_str)
      else Inr ())"
  using assms
  by (simp add: utmupsValidate_def inconsistent_def M_of_def Bands_of_def U_of_def s_of_def
        Let_def cong: sum.case_cong)

lemma utmupsValidate_str_zone:
  assumes "coord6 coord falsed = Some (zone, hemi, e, n, band, enMM)"
    and "to3zBhp zone band hemi = Inr (ZStr str, B, h)"
  shows "utmupsValidate to3zBhp coord falsed MGRS Error =
     (if find_py NS h < 0
      then Inl (Exc Error (Invalid (if MGRS then MGRS_str else UTM_str) (ZStr str) B h
                  zone band hemi))
      else Inl (Exc TypeError (Message ''str < int'')))"
  using assms by (simp add: utmupsValidate_def Let_def)

lemma en_check_between:
  "between lo f hi \<Longrightarrow> en_check Error U (Number f) lo hi ename = Inr ()"
  by (simp add: en_check_def)

lemma en_check_outside:
  "\<not> between lo f hi \<Longrightarrow>
   en_check Error U (Number f) lo hi ename = Inl (Exc Error (Outside ename (Number f) U lo hi))"
  by (simp add: en_check_def)

lemma en_check_no_float:
  "c = TypeError \<or> c = ValueError \<Longrightarrow>
   en_check Error U (NoFloat c m) lo hi ename =
     Inl (Exc Error (Outside ename (NoFloat c m) U lo hi))"
  by (auto simp: en_check_def)

lemma en_check_float_raises:
  "c \<noteq> TypeError \<Longrightarrow> c \<noteq> ValueError \<Longrightarrow>
   en_check Error U (NoFloat c m) lo hi ename = Inl (Exc c (Message m))"
  by (simp add: en_check_def)

lemma en_check_raises:
  "en_check Error U en lo hi ename = Inl x \<Longrightarrow>
   x = Exc Error (Outside ename en U lo hi) \<or>
   (\<exists>c m. en = NoFloat c m \<and> c \<noteq> TypeError \<and> c \<noteq> ValueError \<and> x = Exc c (Message m))"
  by (cases en) (auto simp: en_check_def split: if_splits)

text \<open>The rows of the two tables, in meters.\<close>

lemma Ups_rows:
  "eMin UpsMinMax = [1300000, 800000]" "eMax UpsMinMax = [2700000, 3200000]"
  "nMin UpsMinMax = [1300000, 800000]" "nMax UpsMinMax = [2700000, 3200000]"
  by (simp_all add: UpsMinMax_def tile_defs)

lemma Utm_rows:
  "eMin UtmMinMax = [100000, 100000]" "eMax UtmMinMax = [900000, 900000]"
  "nMin UtmMinMax = [- 9000000, 1000000]" "nMax UtmMinMax = [9500000, 19500000]"
  by (simp_all add: UtmMinMax_def tile_defs)

lemma consistent_index:
  "\<not> inconsistent z B h \<Longrightarrow> nat (find_py NS h) = 0 \<or> nat (find_py NS h) = 1"
  using find_py_NS_cases [of h] by (auto simp: inconsistent_def)

lemma rows_ordered:
  assumes "i = 0 \<or> i = (1::nat)"
  shows "eMin (M_of z) ! i \<le> eMax (M_of z) ! i" "nMin (M_of z) ! i \<le> nMax (M_of z) ! i"
  using assms by (auto simp: M_of_def Ups_rows Utm_rows)

text \<open>
  Claim C3. A coordinate whose effective falsed flag is true, whose zone, band and
  hemisphere are consistent and whose bounds are not widened (\<^verbatim>\<open>MGRS\<close> false) is checked
  against the row \<open>i\<close> (0 for N, 1 for S) of the table \<open>M\<close> of its family (UPS for the
  zone 0, UTM otherwise). With the easting and the northing each on the minimum or the
  maximum of the row the validation passes: the bounds are inclusive. An easting one
  meter below the minimum or above the maximum is refused with the error that names
  the easting, its value and the range; with the easting on a bound, a northing one
  meter beyond is refused with the error that names the northing. A UPS coordinate of
  the South pole with easting 1,000,000 and northing 3,200,001 fails with the northing
  error for the range from 800,000 to 3,200,000.
\<close>

theorem utmupsValidate_bounds_inclusive:
  assumes c6: "coord6 coord falsed =
                 Some (zone, hemi, Number (Float e), Number (Float n), band, True)"
    and norm: "to3zBhp zone band hemi = Inr (ZInt z, B, h)"
    and ok: "\<not> inconsistent z B h"
    and i: "i = nat (find_py NS h)" and M: "M = M_of z"
  shows
   "(e \<in> {eMin M ! i, eMax M ! i} \<and> n \<in> {nMin M ! i, nMax M ! i} \<longrightarrow>
       utmupsValidate to3zBhp coord falsed False Error = Inr ()) \<and>
    (e \<in> {eMin M ! i - 1, eMax M ! i + 1} \<longrightarrow>
       utmupsValidate to3zBhp coord falsed False Error =
         Inl (Exc Error (Outside easting_str (Number (Float e)) (U_of z False)
                (eMin M ! i) (eMax M ! i)))) \<and>
    (e \<in> {eMin M ! i, eMax M ! i} \<and> n \<in> {nMin M ! i - 1, nMax M ! i + 1} \<longrightarrow>
       utmupsValidate to3zBhp coord falsed False Error =
         Inl (Exc Error (Outside northing_str (Number (Float n)) (U_of z False)
                (nMin M ! i) (nMax M ! i)))) \<and>
    (z = UPS_ZONE \<and> h = ''S'' \<and> e = 1000000 \<and> n = 3200001 \<longrightarrow>
       utmupsValidate to3zBhp coord falsed False Error =
         Inl (Exc Error (Outside northing_str (Number (Float 3200001)) UPS_str
                800000 3200000)))"
proof -
  have i01: "i = 0 \<or> i = 1"
    using consistent_index [OF ok] i by simp
  note ord = rows_ordered [OF i01, of z]
  have v: "utmupsValidate to3zBhp coord falsed False Error =
     (case en_check Error (U_of z False) (Number (Float e)) (eMin M ! i) (eMax M ! i)
             easting_str of
        Inl x \<Rightarrow> Inl x
      | Inr none \<Rightarrow>
          en_check Error (U_of z False) (Number (Float n)) (nMin M ! i) (nMax M ! i)
            northing_str)"
    using utmupsValidate_normalized [where to3zBhp = to3zBhp, OF c6 norm, of False Error] ok i M
    by (simp add: s_of_def cong: sum.case_cong)
  have a: "e \<in> {eMin M ! i, eMax M ! i} \<and> n \<in> {nMin M ! i, nMax M ! i} \<longrightarrow>
       utmupsValidate to3zBhp coord falsed False Error = Inr ()"
    using ord M by (auto simp: v en_check_def)
  have b: "e \<in> {eMin M ! i - 1, eMax M ! i + 1} \<longrightarrow>
       utmupsValidate to3zBhp coord falsed False Error =
         Inl (Exc Error (Outside easting_str (Number (Float e)) (U_of z False)
                (eMin M ! i) (eMax M ! i)))"
    using ord M by (auto simp: v en_check_def)
  have c: "e \<in> {eMin M ! i, eMax M ! i} \<and> n \<in> {nMin M ! i - 1, nMax M ! i + 1} \<longrightarrow>
       utmupsValidate to3zBhp coord falsed False Error =
         Inl (Exc Error (Outside northing_str (Number (Float n)) (U_of z False)
                (nMin M ! i) (nMax M ! i)))"
    using ord M by (auto simp: v en_check_def)
  have d: "z = UPS_ZONE \<and> h = ''S'' \<and> e = 1000000 \<and> n = 3200001 \<longrightarrow>
       utmupsValidate to3zBhp coord falsed False Error =
         Inl (Exc Error (Outside northing_str (Number (Float 3200001)) UPS_str
                800000 3200000))"
    using i M by (auto simp: v en_check_def M_of_def U_of_def Ups_rows find_py_NS_S)
  from a b c d show ?thesis by blast
qed

text \<open>
  The example of claim C3 and a coordinate on two bounds of the same row, as tuples
  that are validated as falsed.
\<close>

lemma consistent_UPS_S_A: "\<not> inconsistent UPS_ZONE ''A'' ''S''"
  by (simp add: inconsistent_def find_py_NS_S UTMUPS_ZONE_MIN_def UTMUPS_ZONE_MAX_def
        UPS_ZONE_def Bands_of_def ups_Bands_def)

theorem utmupsValidate_bounds_inclusive_witness:
  "utmupsValidate to3zBhp_normal
     (UtmUps5Tuple (ZInt 0) ''S'' (Number (Float 1000000)) (Number (Float 3200001)) ''A'')
     True False UTMUPSError =
   Inl (Exc UTMUPSError (Outside ''northing'' (Number (Float 3200001)) ''UPS''
          800000 3200000)) \<and>
   utmupsValidate to3zBhp_normal
     (UtmUps5Tuple (ZInt 0) ''S'' (Number (Float 800000)) (Number (Float 3200000)) ''A'')
     True False UTMUPSError = Inr ()"
proof -
  have n: "to3zBhp_normal (ZInt 0) ''A'' ''S'' = Inr (ZInt UPS_ZONE, ''A'', ''S'')"
    by (simp add: to3zBhp_normal_def UPS_ZONE_def)
  have c1: "coord6 (UtmUps5Tuple (ZInt 0) ''S'' (Number (Float 1000000))
              (Number (Float 3200001)) ''A'') True =
            Some (ZInt 0, ''S'', Number (Float 1000000), Number (Float 3200001), ''A'', True)"
    by simp
  have c2: "coord6 (UtmUps5Tuple (ZInt 0) ''S'' (Number (Float 800000))
              (Number (Float 3200000)) ''A'') True =
            Some (ZInt 0, ''S'', Number (Float 800000), Number (Float 3200000), ''A'', True)"
    by simp
  show ?thesis
    using utmupsValidate_bounds_inclusive [where to3zBhp = to3zBhp_normal,
        OF c1 n consistent_UPS_S_A refl refl, of UTMUPSError]
      utmupsValidate_bounds_inclusive [where to3zBhp = to3zBhp_normal,
        OF c2 n consistent_UPS_S_A refl refl, of UTMUPSError]
    by (simp add: M_of_def Ups_rows find_py_NS_S northing_str_def UPS_str_def)
qed

subsection \<open>Unfalsed coordinates and values that are no numbers\<close>

lemma consistent_31_U_N: "\<not> inconsistent 31 ''U'' ''N''"
  by (simp add: inconsistent_def find_py_NS_N UTMUPS_ZONE_MIN_def UTMUPS_ZONE_MAX_def
        UPS_ZONE_def Bands_of_def utm_Bands_def)

lemma to3zBhp_normal_31: "to3zBhp_normal (ZInt 31) ''U'' ''N'' = Inr (ZInt 31, ''U'', ''N'')"
  by (simp add: to3zBhp_normal_def)

text \<open>
  Claim C5. For a coordinate of any of the four shapes whose effective falsed flag is
  false and whose normalized zone, band and hemisphere are consistent,
  \<^verbatim>\<open>utmupsValidate\<close> returns without looking at the easting and the northing, whatever
  they are and whether \<^verbatim>\<open>MGRS\<close> is set or not.
\<close>

theorem utmupsValidate_unfalsed:
  assumes c6: "coord6 coord falsed = Some (zone, hemi, e, n, band, False)"
    and norm: "to3zBhp zone band hemi = Inr (ZInt z, B, h)"
    and ok: "\<not> inconsistent z B h"
  shows "utmupsValidate to3zBhp coord falsed MGRS Error = Inr ()"
  using utmupsValidate_normalized [where to3zBhp = to3zBhp, OF c6 norm, of MGRS Error] ok
  by simp

text \<open>An unfalsed tuple of zone 31 with easting 0 and a northing that is no number.\<close>

theorem utmupsValidate_unfalsed_witness:
  "utmupsValidate to3zBhp_normal
     (UtmUps5Tuple (ZInt 31) ''N'' (Number (Float 0)) (NoFloat TypeError ''None'') ''U'')
     False False UTMUPSError = Inr ()"
proof -
  have c: "coord6 (UtmUps5Tuple (ZInt 31) ''N'' (Number (Float 0))
             (NoFloat TypeError ''None'') ''U'') False =
           Some (ZInt 31, ''N'', Number (Float 0), NoFloat TypeError ''None'', ''U'', False)"
    by simp
  show ?thesis
    by (rule utmupsValidate_unfalsed [where to3zBhp = to3zBhp_normal,
          OF c to3zBhp_normal_31 consistent_31_U_N])
qed

text \<open>
  Claim C10. For a falsed, consistent coordinate, with \<open>U\<close> the name, \<open>s\<close> the widening
  and \<open>i\<close> the row of the table \<open>M\<close>: an easting on which \<^verbatim>\<open>float\<close> raises a \<^verbatim>\<open>TypeError\<close> or
  a \<^verbatim>\<open>ValueError\<close> does not let that error through; \<^verbatim>\<open>utmupsValidate\<close> raises the
  configured error with the name easting, the value and the range, which is the very
  error it raises for a number outside the range. The same holds for the northing once
  the easting is within its range.
\<close>

theorem utmupsValidate_not_a_number:
  assumes c6: "coord6 coord falsed = Some (zone, hemi, e, n, band, True)"
    and norm: "to3zBhp zone band hemi = Inr (ZInt z, B, h)"
    and ok: "\<not> inconsistent z B h"
    and i: "i = nat (find_py NS h)" and M: "M = M_of z"
    and U: "U = U_of z MGRS" and s: "s = s_of MGRS"
    and c: "c = TypeError \<or> c = ValueError"
  shows
   "(py_float e = Inl (c, m) \<longrightarrow>
       utmupsValidate to3zBhp coord falsed MGRS Error =
         Inl (Exc Error (Outside easting_str e U (eMin M ! i - s) (eMax M ! i + s)))) \<and>
    (\<forall>f. e = Number f \<and> \<not> between (eMin M ! i - s) f (eMax M ! i + s) \<longrightarrow>
       utmupsValidate to3zBhp coord falsed MGRS Error =
         Inl (Exc Error (Outside easting_str e U (eMin M ! i - s) (eMax M ! i + s)))) \<and>
    (\<forall>f. e = Number f \<and> between (eMin M ! i - s) f (eMax M ! i + s) \<and>
         py_float n = Inl (c, m) \<longrightarrow>
       utmupsValidate to3zBhp coord falsed MGRS Error =
         Inl (Exc Error (Outside northing_str n U (nMin M ! i - s) (nMax M ! i + s)))) \<and>
    (\<forall>f g. e = Number f \<and> between (eMin M ! i - s) f (eMax M ! i + s) \<and>
         n = Number g \<and> \<not> between (nMin M ! i - s) g (nMax M ! i + s) \<longrightarrow>
       utmupsValidate to3zBhp coord falsed MGRS Error =
         Inl (Exc Error (Outside northing_str n U (nMin M ! i - s) (nMax M ! i + s))))"
proof -
  have v: "utmupsValidate to3zBhp coord falsed MGRS Error =
     (case en_check Error U e (eMin M ! i - s) (eMax M ! i + s) easting_str of
        Inl x \<Rightarrow> Inl x
      | Inr none \<Rightarrow> en_check Error U n (nMin M ! i - s) (nMax M ! i + s) northing_str)"
    using utmupsValidate_normalized [where to3zBhp = to3zBhp, OF c6 norm, of MGRS Error]
      ok i M U s
    by (simp cong: sum.case_cong)
  show ?thesis
    using c by (cases e; cases n) (auto simp: v en_check_def)
qed

text \<open>
  A falsed tuple of zone 31 N with the easting \<^verbatim>\<open>'abc'\<close>, and one with the northing
  \<^verbatim>\<open>None\<close>.
\<close>

theorem utmupsValidate_not_a_number_witness:
  "utmupsValidate to3zBhp_normal
     (UtmUps5Tuple (ZInt 31) ''N'' (NoFloat ValueError ''abc'') (Number (Float 0)) ''U'')
     True False UTMUPSError =
   Inl (Exc UTMUPSError (Outside ''easting'' (NoFloat ValueError ''abc'') ''UTM''
          100000 900000)) \<and>
   utmupsValidate to3zBhp_normal
     (UtmUps5Tuple (ZInt 31) ''N'' (Number (Float 500000)) (NoFloat TypeError ''None'') ''U'')
     True False UTMUPSError =
   Inl (Exc UTMUPSError (Outside ''northing'' (NoFloat TypeError ''None'') ''UTM''
          (- 9000000) 9500000))"
proof -
  have c1: "coord6 (UtmUps5Tuple (ZInt 31) ''N'' (NoFloat ValueError ''abc'')
              (Number (Float 0)) ''U'') True =
            Some (ZInt 31, ''N'', NoFloat ValueError ''abc'', Number (Float 0), ''U'', True)"
    by simp
  have c2: "coord6 (UtmUps5Tuple (ZInt 31) ''N'' (Number (Float 500000))
              (NoFloat TypeError ''None'') ''U'') True =
            Some (ZInt 31, ''N'', Number (Float 500000), NoFloat TypeError ''None'', ''U'',
                  True)"
    by simp
  have v: "ValueError = TypeError \<or> ValueError = ValueError"
    and t: "TypeError = TypeError \<or> TypeError = ValueError"
    by simp_all
  show ?thesis
    using utmupsValidate_not_a_number [where to3zBhp = to3zBhp_normal and MGRS = False
        and m = "''abc''", OF c1 to3zBhp_normal_31 consistent_31_U_N refl refl refl refl v,
        of UTMUPSError]
      utmupsValidate_not_a_number [where to3zBhp = to3zBhp_normal and MGRS = False
        and m = "''None''", OF c2 to3zBhp_normal_31 consistent_31_U_N refl refl refl refl t,
        of UTMUPSError]
    by (simp add: M_of_def U_of_def s_of_def UPS_ZONE_def Utm_rows find_py_NS_N
          easting_str_def northing_str_def UTM_str_def)
qed

text \<open>
  Claim C9. For an instance of \<^verbatim>\<open>Utm\<close> or \<^verbatim>\<open>Ups\<close> the result of \<^verbatim>\<open>utmupsValidate\<close> does
  not depend on the argument \<^verbatim>\<open>falsed\<close>: any two values of it give the same result, and
  the result is that for the tuple with the same fields validated with the attribute
  \<^verbatim>\<open>falsed\<close> of the object in the place of the argument. So the attribute of the object
  alone decides whether the bounds are checked: where the zone, band and hemisphere are
  consistent, a \<^verbatim>\<open>Utm\<close> or \<^verbatim>\<open>Ups\<close> object whose attribute is false passes whatever the
  argument is, and one whose attribute is true gets its easting and then its northing
  checked whatever the argument is. For a tuple the argument takes the place of that
  attribute: a tuple validated with \<^verbatim>\<open>falsed\<close> is treated like the object with the same
  fields whose attribute is that value.
\<close>

theorem utmupsValidate_falsed_of_object:
  "utmupsValidate to3zBhp (Utm zone hemi e n band coord_falsed) falsed MGRS Error =
     utmupsValidate to3zBhp (Utm zone hemi e n band coord_falsed) falsed' MGRS Error \<and>
   utmupsValidate to3zBhp (Ups zone hemi e n band coord_falsed) falsed MGRS Error =
     utmupsValidate to3zBhp (Ups zone hemi e n band coord_falsed) falsed' MGRS Error \<and>
   utmupsValidate to3zBhp (UtmUps5Tuple zone hemi e n band) falsed MGRS Error =
     utmupsValidate to3zBhp (Utm zone hemi e n band falsed) falsed' MGRS Error \<and>
   utmupsValidate to3zBhp (UtmUps8Tuple zone hemi e n band datum convergence scale)
       falsed MGRS Error =
     utmupsValidate to3zBhp (Utm zone hemi e n band falsed) falsed' MGRS Error \<and>
   utmupsValidate to3zBhp (Utm zone hemi e n band coord_falsed) falsed MGRS Error =
     utmupsValidate to3zBhp (UtmUps5Tuple zone hemi e n band) coord_falsed MGRS Error \<and>
   utmupsValidate to3zBhp (Ups zone hemi e n band coord_falsed) falsed MGRS Error =
     utmupsValidate to3zBhp (UtmUps5Tuple zone hemi e n band) coord_falsed MGRS Error \<and>
   utmupsValidate to3zBhp (UtmUps5Tuple zone hemi e n band) falsed MGRS Error =
     utmupsValidate to3zBhp (Ups zone hemi e n band falsed) falsed' MGRS Error \<and>
   utmupsValidate to3zBhp (UtmUps8Tuple zone hemi e n band datum convergence scale)
       falsed MGRS Error =
     utmupsValidate to3zBhp (Ups zone hemi e n band falsed) falsed' MGRS Error \<and>
   (\<forall>z B h. to3zBhp zone band hemi = Inr (ZInt z, B, h) \<and> \<not> inconsistent z B h \<longrightarrow>
      utmupsValidate to3zBhp (Utm zone hemi e n band False) falsed MGRS Error = Inr () \<and>
      utmupsValidate to3zBhp (Ups zone hemi e n band False) falsed MGRS Error = Inr () \<and>
      utmupsValidate to3zBhp (UtmUps5Tuple zone hemi e n band) False MGRS Error = Inr () \<and>
      utmupsValidate to3zBhp (Utm zone hemi e n band True) falsed MGRS Error =
        (case en_check Error (U_of z MGRS) e
                (eMin (M_of z) ! nat (find_py NS h) - s_of MGRS)
                (eMax (M_of z) ! nat (find_py NS h) + s_of MGRS) easting_str of
           Inl x \<Rightarrow> Inl x
         | Inr none \<Rightarrow>
             en_check Error (U_of z MGRS) n
               (nMin (M_of z) ! nat (find_py NS h) - s_of MGRS)
               (nMax (M_of z) ! nat (find_py NS h) + s_of MGRS) northing_str) \<and>
      utmupsValidate to3zBhp (Ups zone hemi e n band True) falsed MGRS Error =
        (case en_check Error (U_of z MGRS) e
                (eMin (M_of z) ! nat (find_py NS h) - s_of MGRS)
                (eMax (M_of z) ! nat (find_py NS h) + s_of MGRS) easting_str of
           Inl x \<Rightarrow> Inl x
         | Inr none \<Rightarrow>
             en_check Error (U_of z MGRS) n
               (nMin (M_of z) ! nat (find_py NS h) - s_of MGRS)
               (nMax (M_of z) ! nat (find_py NS h) + s_of MGRS) northing_str) \<and>
      utmupsValidate to3zBhp (UtmUps5Tuple zone hemi e n band) True MGRS Error =
        (case en_check Error (U_of z MGRS) e
                (eMin (M_of z) ! nat (find_py NS h) - s_of MGRS)
                (eMax (M_of z) ! nat (find_py NS h) + s_of MGRS) easting_str of
           Inl x \<Rightarrow> Inl x
         | Inr none \<Rightarrow>
             en_check Error (U_of z MGRS) n
               (nMin (M_of z) ! nat (find_py NS h) - s_of MGRS)
               (nMax (M_of z) ! nat (find_py NS h) + s_of MGRS) northing_str))"
proof -
  have shapes:
    "utmupsValidate to3zBhp (Utm zone hemi e n band coord_falsed) falsed MGRS Error =
       utmupsValidate to3zBhp (Utm zone hemi e n band coord_falsed) falsed' MGRS Error \<and>
     utmupsValidate to3zBhp (Ups zone hemi e n band coord_falsed) falsed MGRS Error =
       utmupsValidate to3zBhp (Ups zone hemi e n band coord_falsed) falsed' MGRS Error \<and>
     utmupsValidate to3zBhp (UtmUps5Tuple zone hemi e n band) falsed MGRS Error =
       utmupsValidate to3zBhp (Utm zone hemi e n band falsed) falsed' MGRS Error \<and>
     utmupsValidate to3zBhp (UtmUps8Tuple zone hemi e n band datum convergence scale)
         falsed MGRS Error =
       utmupsValidate to3zBhp (Utm zone hemi e n band falsed) falsed' MGRS Error \<and>
     utmupsValidate to3zBhp (Utm zone hemi e n band coord_falsed) falsed MGRS Error =
       utmupsValidate to3zBhp (UtmUps5Tuple zone hemi e n band) coord_falsed MGRS Error \<and>
     utmupsValidate to3zBhp (Ups zone hemi e n band coord_falsed) falsed MGRS Error =
       utmupsValidate to3zBhp (UtmUps5Tuple zone hemi e n band) coord_falsed MGRS Error \<and>
     utmupsValidate to3zBhp (UtmUps5Tuple zone hemi e n band) falsed MGRS Error =
       utmupsValidate to3zBhp (Ups zone hemi e n band falsed) falsed' MGRS Error \<and>
     utmupsValidate to3zBhp (UtmUps8Tuple zone hemi e n band datum convergence scale)
         falsed MGRS Error =
       utmupsValidate to3zBhp (Ups zone hemi e n band falsed) falsed' MGRS Error"
    by (simp add: utmupsValidate_def)
  have checked:
    "utmupsValidate to3zBhp coord fl MGRS Error =
       (if enMM then
          (case en_check Error (U_of z MGRS) e
                  (eMin (M_of z) ! nat (find_py NS h) - s_of MGRS)
                  (eMax (M_of z) ! nat (find_py NS h) + s_of MGRS) easting_str of
             Inl x \<Rightarrow> Inl x
           | Inr none \<Rightarrow>
               en_check Error (U_of z MGRS) n
                 (nMin (M_of z) ! nat (find_py NS h) - s_of MGRS)
                 (nMax (M_of z) ! nat (find_py NS h) + s_of MGRS) northing_str)
        else Inr ())"
    if "coord6 coord fl = Some (zone, hemi, e, n, band, enMM)"
      and "to3zBhp zone band hemi = Inr (ZInt z, B, h)" and "\<not> inconsistent z B h"
    for coord fl enMM z B h
    using utmupsValidate_normalized [where to3zBhp = to3zBhp, OF that(1) that(2),
        of MGRS Error] that(3)
    by simp
  have attribute:
    "\<forall>z B h. to3zBhp zone band hemi = Inr (ZInt z, B, h) \<and> \<not> inconsistent z B h \<longrightarrow>
      utmupsValidate to3zBhp (Utm zone hemi e n band False) falsed MGRS Error = Inr () \<and>
      utmupsValidate to3zBhp (Ups zone hemi e n band False) falsed MGRS Error = Inr () \<and>
      utmupsValidate to3zBhp (UtmUps5Tuple zone hemi e n band) False MGRS Error = Inr () \<and>
      utmupsValidate to3zBhp (Utm zone hemi e n band True) falsed MGRS Error =
        (case en_check Error (U_of z MGRS) e
                (eMin (M_of z) ! nat (find_py NS h) - s_of MGRS)
                (eMax (M_of z) ! nat (find_py NS h) + s_of MGRS) easting_str of
           Inl x \<Rightarrow> Inl x
         | Inr none \<Rightarrow>
             en_check Error (U_of z MGRS) n
               (nMin (M_of z) ! nat (find_py NS h) - s_of MGRS)
               (nMax (M_of z) ! nat (find_py NS h) + s_of MGRS) northing_str) \<and>
      utmupsValidate to3zBhp (Ups zone hemi e n band True) falsed MGRS Error =
        (case en_check Error (U_of z MGRS) e
                (eMin (M_of z) ! nat (find_py NS h) - s_of MGRS)
                (eMax (M_of z) ! nat (find_py NS h) + s_of MGRS) easting_str of
           Inl x \<Rightarrow> Inl x
         | Inr none \<Rightarrow>
             en_check Error (U_of z MGRS) n
               (nMin (M_of z) ! nat (find_py NS h) - s_of MGRS)
               (nMax (M_of z) ! nat (find_py NS h) + s_of MGRS) northing_str) \<and>
      utmupsValidate to3zBhp (UtmUps5Tuple zone hemi e n band) True MGRS Error =
        (case en_check Error (U_of z MGRS) e
                (eMin (M_of z) ! nat (find_py NS h) - s_of MGRS)
                (eMax (M_of z) ! nat (find_py NS h) + s_of MGRS) easting_str of
           Inl x \<Rightarrow> Inl x
         | Inr none \<Rightarrow>
             en_check Error (U_of z MGRS) n
               (nMin (M_of z) ! nat (find_py NS h) - s_of MGRS)
               (nMax (M_of z) ! nat (find_py NS h) + s_of MGRS) northing_str)"
  proof (intro allI impI, elim conjE)
    fix z B h
    assume norm: "to3zBhp zone band hemi = Inr (ZInt z, B, h)"
      and ok: "\<not> inconsistent z B h"
    have u0: "coord6 (Utm zone hemi e n band False) falsed =
                Some (zone, hemi, e, n, band, False)"
      and p0: "coord6 (Ups zone hemi e n band False) falsed =
                Some (zone, hemi, e, n, band, False)"
      and t0: "coord6 (UtmUps5Tuple zone hemi e n band) False =
                Some (zone, hemi, e, n, band, False)"
      and u1: "coord6 (Utm zone hemi e n band True) falsed =
                Some (zone, hemi, e, n, band, True)"
      and p1: "coord6 (Ups zone hemi e n band True) falsed =
                Some (zone, hemi, e, n, band, True)"
      and t1: "coord6 (UtmUps5Tuple zone hemi e n band) True =
                Some (zone, hemi, e, n, band, True)"
      by simp_all
    show "utmupsValidate to3zBhp (Utm zone hemi e n band False) falsed MGRS Error = Inr () \<and>
      utmupsValidate to3zBhp (Ups zone hemi e n band False) falsed MGRS Error = Inr () \<and>
      utmupsValidate to3zBhp (UtmUps5Tuple zone hemi e n band) False MGRS Error = Inr () \<and>
      utmupsValidate to3zBhp (Utm zone hemi e n band True) falsed MGRS Error =
        (case en_check Error (U_of z MGRS) e
                (eMin (M_of z) ! nat (find_py NS h) - s_of MGRS)
                (eMax (M_of z) ! nat (find_py NS h) + s_of MGRS) easting_str of
           Inl x \<Rightarrow> Inl x
         | Inr none \<Rightarrow>
             en_check Error (U_of z MGRS) n
               (nMin (M_of z) ! nat (find_py NS h) - s_of MGRS)
               (nMax (M_of z) ! nat (find_py NS h) + s_of MGRS) northing_str) \<and>
      utmupsValidate to3zBhp (Ups zone hemi e n band True) falsed MGRS Error =
        (case en_check Error (U_of z MGRS) e
                (eMin (M_of z) ! nat (find_py NS h) - s_of MGRS)
                (eMax (M_of z) ! nat (find_py NS h) + s_of MGRS) easting_str of
           Inl x \<Rightarrow> Inl x
         | Inr none \<Rightarrow>
             en_check Error (U_of z MGRS) n
               (nMin (M_of z) ! nat (find_py NS h) - s_of MGRS)
               (nMax (M_of z) ! nat (find_py NS h) + s_of MGRS) northing_str) \<and>
      utmupsValidate to3zBhp (UtmUps5Tuple zone hemi e n band) True MGRS Error =
        (case en_check Error (U_of z MGRS) e
                (eMin (M_of z) ! nat (find_py NS h) - s_of MGRS)
                (eMax (M_of z) ! nat (find_py NS h) + s_of MGRS) easting_str of
           Inl x \<Rightarrow> Inl x
         | Inr none \<Rightarrow>
             en_check Error (U_of z MGRS) n
               (nMin (M_of z) ! nat (find_py NS h) - s_of MGRS)
               (nMax (M_of z) ! nat (find_py NS h) + s_of MGRS) northing_str)"
      using checked [OF u0 norm ok] checked [OF p0 norm ok] checked [OF t0 norm ok]
        checked [OF u1 norm ok] checked [OF p1 norm ok] checked [OF t1 norm ok]
      by simp
  qed
  show ?thesis
    using shapes attribute
    apply -
    apply (elim conjE)
    apply (intro conjI; assumption)
    done
qed

lemma consistent_UPS_N_Z: "\<not> inconsistent 0 ''Z'' ''N''"
  by (simp add: inconsistent_def find_py_NS_N UTMUPS_ZONE_MIN_def UTMUPS_ZONE_MAX_def
        UPS_ZONE_def Bands_of_def ups_Bands_def)

text \<open>
  An unfalsed \<^verbatim>\<open>Utm\<close> object and an unfalsed \<^verbatim>\<open>Ups\<close> object with the easting 0 pass
  although \<^verbatim>\<open>falsed=True\<close> is given; a falsed \<^verbatim>\<open>Ups\<close> object and a falsed \<^verbatim>\<open>Utm\<close> object
  with the easting 0 fail although \<^verbatim>\<open>falsed=False\<close> is given; the tuple with the fields
  of the \<^verbatim>\<open>Utm\<close> object passes with \<^verbatim>\<open>falsed=False\<close> and fails with \<^verbatim>\<open>falsed=True\<close>.
\<close>

theorem utmupsValidate_falsed_of_object_witness:
  "utmupsValidate to3zBhp_normal
     (Utm (ZInt 31) ''N'' (Number (Float 0)) (Number (Float 0)) ''U'' False)
     True False UTMUPSError = Inr () \<and>
   utmupsValidate to3zBhp_normal
     (UtmUps5Tuple (ZInt 31) ''N'' (Number (Float 0)) (Number (Float 0)) ''U'')
     False False UTMUPSError = Inr () \<and>
   utmupsValidate to3zBhp_normal
     (UtmUps5Tuple (ZInt 31) ''N'' (Number (Float 0)) (Number (Float 0)) ''U'')
     True False UTMUPSError =
   Inl (Exc UTMUPSError (Outside ''easting'' (Number (Float 0)) ''UTM'' 100000 900000)) \<and>
   utmupsValidate to3zBhp_normal
     (Utm (ZInt 31) ''N'' (Number (Float 0)) (Number (Float 0)) ''U'' True)
     False False UTMUPSError =
   Inl (Exc UTMUPSError (Outside ''easting'' (Number (Float 0)) ''UTM'' 100000 900000)) \<and>
   utmupsValidate to3zBhp_normal
     (Ups (ZInt 0) ''N'' (Number (Float 0)) (Number (Float 2000000)) ''Z'' False)
     True False UTMUPSError = Inr () \<and>
   utmupsValidate to3zBhp_normal
     (Ups (ZInt 0) ''N'' (Number (Float 0)) (Number (Float 2000000)) ''Z'' True)
     False False UTMUPSError =
   Inl (Exc UTMUPSError (Outside ''easting'' (Number (Float 0)) ''UPS'' 1300000 2700000))"
proof -
  have n0: "to3zBhp_normal (ZInt 0) ''Z'' ''N'' = Inr (ZInt 0, ''Z'', ''N'')"
    by (simp add: to3zBhp_normal_def)
  have utm: "to3zBhp_normal (ZInt 31) ''U'' ''N'' = Inr (ZInt 31, ''U'', ''N'') \<and>
             \<not> inconsistent 31 ''U'' ''N''"
    and ups: "to3zBhp_normal (ZInt 0) ''Z'' ''N'' = Inr (ZInt 0, ''Z'', ''N'') \<and>
              \<not> inconsistent 0 ''Z'' ''N''"
    using to3zBhp_normal_31 consistent_31_U_N n0 consistent_UPS_N_Z by simp_all
  show ?thesis
    using
      utmupsValidate_falsed_of_object [where to3zBhp = to3zBhp_normal and zone = "ZInt 31"
        and hemi = "''N''" and e = "Number (Float 0)" and n = "Number (Float 0)"
        and band = "''U''" and falsed = True and MGRS = False and Error = UTMUPSError]
      utmupsValidate_falsed_of_object [where to3zBhp = to3zBhp_normal and zone = "ZInt 31"
        and hemi = "''N''" and e = "Number (Float 0)" and n = "Number (Float 0)"
        and band = "''U''" and falsed = False and MGRS = False and Error = UTMUPSError]
      utmupsValidate_falsed_of_object [where to3zBhp = to3zBhp_normal and zone = "ZInt 0"
        and hemi = "''N''" and e = "Number (Float 0)" and n = "Number (Float 2000000)"
        and band = "''Z''" and falsed = True and MGRS = False and Error = UTMUPSError]
      utmupsValidate_falsed_of_object [where to3zBhp = to3zBhp_normal and zone = "ZInt 0"
        and hemi = "''N''" and e = "Number (Float 0)" and n = "Number (Float 2000000)"
        and band = "''Z''" and falsed = False and MGRS = False and Error = UTMUPSError]
      utm ups
    by (simp add: en_check_def M_of_def U_of_def s_of_def UPS_ZONE_def Utm_rows Ups_rows
          find_py_NS_N easting_str_def UTM_str_def UPS_str_def)
qed

subsection \<open>The zone, band and hemisphere check\<close>

lemma inconsistent_letter:
  "inconsistent z B [c] \<longleftrightarrow>
     (c \<notin> {CHR ''N'', CHR ''S''} \<or> z < UTMUPS_ZONE_MIN \<or> UTMUPS_ZONE_MAX < z \<or>
      B \<notin> set (Bands_of z))"
  by (auto simp: inconsistent_def find_py_NS_letter)

lemma en_check_not_Invalid:
  "en_check Error U en lo hi ename \<noteq> Inl (Exc Error' (Invalid U' z' B' h' a b d))"
  by (cases en) (auto simp: en_check_def)

lemma utmupsValidate_not_Invalid:
  assumes c6: "coord6 coord falsed = Some (zone, hemi, e, n, band, enMM)"
    and norm: "to3zBhp zone band hemi = Inr (ZInt z, B, h)"
    and ok: "\<not> inconsistent z B h"
  shows "utmupsValidate to3zBhp coord falsed MGRS Error \<noteq>
           Inl (Exc Error' (Invalid U' z' B' h' a b d))"
proof -
  let ?E = "en_check Error (U_of z MGRS) e
              (eMin (M_of z) ! nat (find_py NS h) - s_of MGRS)
              (eMax (M_of z) ! nat (find_py NS h) + s_of MGRS) easting_str"
  let ?N = "en_check Error (U_of z MGRS) n
              (nMin (M_of z) ! nat (find_py NS h) - s_of MGRS)
              (nMax (M_of z) ! nat (find_py NS h) + s_of MGRS) northing_str"
  have v: "utmupsValidate to3zBhp coord falsed MGRS Error =
             (if enMM then (case ?E of Inl x \<Rightarrow> Inl x | Inr none \<Rightarrow> ?N) else Inr ())"
    using utmupsValidate_normalized [where to3zBhp = to3zBhp, OF c6 norm, of MGRS Error] ok
    by simp
  have e: "?E \<noteq> Inl (Exc Error' (Invalid U' z' B' h' a b d))"
    and n: "?N \<noteq> Inl (Exc Error' (Invalid U' z' B' h' a b d))"
    by (rule en_check_not_Invalid)+
  show ?thesis
  proof (cases ?E)
    case (Inl x)
    with e show ?thesis by (simp add: v)
  next
    case (Inr u)
    with n show ?thesis by (simp add: v)
  qed
qed

lemma bands_disjoint: "B \<in> set ups_Bands \<Longrightarrow> B \<notin> set utm_Bands"
  by (auto simp: ups_Bands_def utm_Bands_def)

lemma bands_disjoint': "B \<in> set utm_Bands \<Longrightarrow> B \<notin> set ups_Bands"
  by (auto simp: ups_Bands_def utm_Bands_def)

text \<open>
  Claim C4, as the code has it. Let the coordinate have one of the four shapes and let
  the normalizer return an int zone \<open>z\<close>, a band \<open>B\<close> and a hemisphere letter \<open>c\<close>. Then
  \<^verbatim>\<open>utmupsValidate\<close> raises the configured error built from the coordinate, zone, band
  and hemisphere exactly when the letter is neither N nor S, or the zone is below
  \<^verbatim>\<open>_UTMUPS_ZONE_MIN\<close> or above \<^verbatim>\<open>_UTMUPS_ZONE_MAX\<close>, or the band is not in the alphabet of
  the family the zone selects (UPS for the zone 0, UTM otherwise). So a letter such as E
  fails whatever the other fields are, a UPS band with a zone other than 0 fails and a
  UTM band with the zone 0 fails. A consistent coordinate whose effective falsed flag is
  false is accepted; one whose flag is true goes on to the check of the bounds, which
  can reject it as well.
\<close>

theorem utmupsValidate_inconsistent:
  assumes c6: "coord6 coord falsed = Some (zone, hemi, e, n, band, enMM)"
    and norm: "to3zBhp zone band hemi = Inr (ZInt z, B, [c])"
    and r: "r = utmupsValidate to3zBhp coord falsed MGRS Error"
    and x: "x = Exc Error (Invalid (U_of z MGRS) (ZInt z) B [c] zone band hemi)"
  shows
   "(r = Inl x \<longleftrightarrow>
       (c \<notin> {CHR ''N'', CHR ''S''} \<or> z < UTMUPS_ZONE_MIN \<or> UTMUPS_ZONE_MAX < z \<or>
        B \<notin> set (Bands_of z))) \<and>
    (c \<notin> {CHR ''N'', CHR ''S''} \<longrightarrow> r = Inl x) \<and>
    (B \<in> set ups_Bands \<and> z \<noteq> UPS_ZONE \<longrightarrow> r = Inl x) \<and>
    (B \<in> set utm_Bands \<and> z = UPS_ZONE \<longrightarrow> r = Inl x) \<and>
    (\<not> enMM \<longrightarrow>
       (r = Inr () \<longleftrightarrow>
          c \<in> {CHR ''N'', CHR ''S''} \<and> UTMUPS_ZONE_MIN \<le> z \<and> z \<le> UTMUPS_ZONE_MAX \<and>
          B \<in> set (Bands_of z)))"
proof -
  note v = utmupsValidate_normalized [where to3zBhp = to3zBhp, OF c6 norm, of MGRS Error]
  have bad: "inconsistent z B [c] \<Longrightarrow> r = Inl x"
    using v r x by simp
  have good: "\<not> inconsistent z B [c] \<Longrightarrow> r \<noteq> Inl x"
    using utmupsValidate_not_Invalid [where to3zBhp = to3zBhp, OF c6 norm] r x by simp
  have unf: "\<not> enMM \<Longrightarrow> \<not> inconsistent z B [c] \<Longrightarrow> r = Inr ()"
    using v r by simp
  have a: "r = Inl x \<longleftrightarrow>
       (c \<notin> {CHR ''N'', CHR ''S''} \<or> z < UTMUPS_ZONE_MIN \<or> UTMUPS_ZONE_MAX < z \<or>
        B \<notin> set (Bands_of z))"
    using bad good unfolding inconsistent_letter [symmetric] by blast
  have b: "c \<notin> {CHR ''N'', CHR ''S''} \<longrightarrow> r = Inl x"
    using bad by (simp add: inconsistent_letter)
  have d: "B \<in> set ups_Bands \<and> z \<noteq> UPS_ZONE \<longrightarrow> r = Inl x"
    using bad bands_disjoint [of B] by (simp add: inconsistent_letter Bands_of_def)
  have f: "B \<in> set utm_Bands \<and> z = UPS_ZONE \<longrightarrow> r = Inl x"
    using bad bands_disjoint' [of B] by (simp add: inconsistent_letter Bands_of_def)
  have g: "\<not> enMM \<longrightarrow>
       (r = Inr () \<longleftrightarrow>
          c \<in> {CHR ''N'', CHR ''S''} \<and> UTMUPS_ZONE_MIN \<le> z \<and> z \<le> UTMUPS_ZONE_MAX \<and>
          B \<in> set (Bands_of z))"
  proof (cases "inconsistent z B [c]")
    case True
    with bad x have "r \<noteq> Inr ()" by simp
    with True show ?thesis by (auto simp: inconsistent_letter)
  next
    case False
    with unf show ?thesis by (auto simp: inconsistent_letter)
  qed
  from a b d f g show ?thesis by blast
qed

text \<open>
  Falsed tuples with the hemisphere E, with the UPS band A in zone 31 and with the UTM
  band U in zone 0.
\<close>

theorem utmupsValidate_inconsistent_witness:
  "utmupsValidate to3zBhp_normal
     (UtmUps5Tuple (ZInt 31) ''E'' (Number (Float 500000)) (Number (Float 0)) ''U'')
     True False UTMUPSError =
   Inl (Exc UTMUPSError (Invalid ''UTM'' (ZInt 31) ''U'' ''E'' (ZInt 31) ''U'' ''E'')) \<and>
   utmupsValidate to3zBhp_normal
     (UtmUps5Tuple (ZInt 31) ''N'' (Number (Float 500000)) (Number (Float 0)) ''A'')
     True False UTMUPSError =
   Inl (Exc UTMUPSError (Invalid ''UTM'' (ZInt 31) ''A'' ''N'' (ZInt 31) ''A'' ''N'')) \<and>
   utmupsValidate to3zBhp_normal
     (UtmUps5Tuple (ZInt 0) ''N'' (Number (Float 2000000)) (Number (Float 2000000)) ''U'')
     True False UTMUPSError =
   Inl (Exc UTMUPSError (Invalid ''UPS'' (ZInt 0) ''U'' ''N'' (ZInt 0) ''U'' ''N''))"
proof -
  have c1: "coord6 (UtmUps5Tuple (ZInt 31) ''E'' (Number (Float 500000)) (Number (Float 0))
              ''U'') True =
            Some (ZInt 31, ''E'', Number (Float 500000), Number (Float 0), ''U'', True)"
    by simp
  have n1: "to3zBhp_normal (ZInt 31) ''U'' ''E'' = Inr (ZInt 31, ''U'', [CHR ''E''])"
    by (simp add: to3zBhp_normal_def)
  have c2: "coord6 (UtmUps5Tuple (ZInt 31) ''N'' (Number (Float 500000)) (Number (Float 0))
              ''A'') True =
            Some (ZInt 31, ''N'', Number (Float 500000), Number (Float 0), ''A'', True)"
    by simp
  have n2: "to3zBhp_normal (ZInt 31) ''A'' ''N'' = Inr (ZInt 31, ''A'', [CHR ''N''])"
    by (simp add: to3zBhp_normal_def)
  have c3: "coord6 (UtmUps5Tuple (ZInt 0) ''N'' (Number (Float 2000000))
              (Number (Float 2000000)) ''U'') True =
            Some (ZInt 0, ''N'', Number (Float 2000000), Number (Float 2000000), ''U'', True)"
    by simp
  have n3: "to3zBhp_normal (ZInt 0) ''U'' ''N'' = Inr (ZInt 0, ''U'', [CHR ''N''])"
    by (simp add: to3zBhp_normal_def)
  show ?thesis
    using utmupsValidate_inconsistent [where to3zBhp = to3zBhp_normal, OF c1 n1 refl refl,
        of False UTMUPSError]
      utmupsValidate_inconsistent [where to3zBhp = to3zBhp_normal, OF c2 n2 refl refl,
        of False UTMUPSError]
      utmupsValidate_inconsistent [where to3zBhp = to3zBhp_normal, OF c3 n3 refl refl,
        of False UTMUPSError]
    by (simp add: U_of_def UPS_ZONE_def UTM_str_def UPS_str_def ups_Bands_def utm_Bands_def)
qed

text \<open>
  Claim C4 as stated fails, since a rejection need not come from the zone, band or
  hemisphere: the falsed tuple of zone 31, band U and hemisphere N with the easting 0 has
  a hemisphere letter among N and S, a zone within the range and a band of the UTM
  alphabet, and is rejected with the configured error, for its easting.
\<close>

theorem utmupsValidate_inconsistent_counterexample:
  "''N'' \<in> {''N'', ''S''} \<and> UTMUPS_ZONE_MIN \<le> 31 \<and> 31 \<le> UTMUPS_ZONE_MAX \<and>
   ''U'' \<in> set utm_Bands \<and>
   to3zBhp_normal (ZInt 31) ''U'' ''N'' = Inr (ZInt 31, ''U'', ''N'') \<and>
   utmupsValidate to3zBhp_normal
     (UtmUps5Tuple (ZInt 31) ''N'' (Number (Float 0)) (Number (Float 0)) ''U'')
     True False UTMUPSError =
   Inl (Exc UTMUPSError (Outside ''easting'' (Number (Float 0)) ''UTM'' 100000 900000))"
proof -
  have c: "coord6 (UtmUps5Tuple (ZInt 31) ''N'' (Number (Float 0)) (Number (Float 0)) ''U'')
             True =
           Some (ZInt 31, ''N'', Number (Float 0), Number (Float 0), ''U'', True)"
    by simp
  show ?thesis
    using utmupsValidate_normalized [where to3zBhp = to3zBhp_normal,
        OF c to3zBhp_normal_31, of False UTMUPSError] consistent_31_U_N
    by (simp add: en_check_def M_of_def U_of_def s_of_def UPS_ZONE_def Utm_rows find_py_NS_N
          easting_str_def UTM_str_def UTMUPS_ZONE_MIN_def UTMUPS_ZONE_MAX_def utm_Bands_def
          to3zBhp_normal_def)
qed

subsection \<open>The wrapper\<close>

text \<open>
  Where an error raised by \<^verbatim>\<open>utmupsValidate\<close> comes from: it is of the configured class,
  or it is the error of the normalizer, or the \<^verbatim>\<open>TypeError\<close> of comparing a str zone, or
  an error of \<^verbatim>\<open>float\<close> other than \<^verbatim>\<open>TypeError\<close> and \<^verbatim>\<open>ValueError\<close>.
\<close>

lemma utmupsValidate_raises:
  assumes r: "utmupsValidate t coord falsed MGRS Error = Inl x"
  shows "cls x = Error \<or>
    (\<exists>zone hemi e n band enMM.
       coord6 coord falsed = Some (zone, hemi, e, n, band, enMM) \<and>
       (t zone band hemi = Inl x \<or>
        (\<exists>str B h. t zone band hemi = Inr (ZStr str, B, h) \<and> cls x = TypeError) \<or>
        (enMM \<and> (\<exists>c m. (e = NoFloat c m \<or> n = NoFloat c m) \<and>
                     c \<noteq> TypeError \<and> c \<noteq> ValueError \<and> x = Exc c (Message m)))))"
proof (cases "coord6 coord falsed")
  case None
  with r show ?thesis by (auto simp: utmupsValidate_shape)
next
  case (Some six)
  then obtain zone hemi e n band enMM
    where c6: "coord6 coord falsed = Some (zone, hemi, e, n, band, enMM)"
    by (cases six) auto
  show ?thesis
  proof (cases "t zone band hemi")
    case (Inl y)
    with utmupsValidate_unnormalized [where to3zBhp = t, OF c6 Inl] r c6
    show ?thesis by auto
  next
    case (Inr zBh)
    then obtain z B h where norm: "t zone band hemi = Inr (z, B, h)"
      by (cases zBh) auto
    show ?thesis
    proof (cases z)
      case (ZStr str)
      with utmupsValidate_str_zone [where to3zBhp = t, OF c6, of str B h MGRS Error] norm r c6
      show ?thesis by (auto split: if_splits)
    next
      case (ZInt zi)
      note v = utmupsValidate_normalized [where to3zBhp = t, OF c6, of zi B h MGRS Error]
      show ?thesis
      proof (cases "inconsistent zi B h")
        case True
        with v norm ZInt r show ?thesis by auto
      next
        case False
        with v norm ZInt r have enMM: enMM
          and en: "(case en_check Error (U_of zi MGRS) e
                (eMin (M_of zi) ! nat (find_py NS h) - s_of MGRS)
                (eMax (M_of zi) ! nat (find_py NS h) + s_of MGRS) easting_str of
           Inl x \<Rightarrow> Inl x
         | Inr none \<Rightarrow>
             en_check Error (U_of zi MGRS) n
               (nMin (M_of zi) ! nat (find_py NS h) - s_of MGRS)
               (nMax (M_of zi) ! nat (find_py NS h) + s_of MGRS) northing_str) = Inl x"
          by (auto split: if_splits)
        from en have "cls x = Error \<or>
            (\<exists>c m. (e = NoFloat c m \<or> n = NoFloat c m) \<and>
                     c \<noteq> TypeError \<and> c \<noteq> ValueError \<and> x = Exc c (Message m))"
          by (auto split: sum.splits dest!: en_check_raises)
        with enMM c6 show ?thesis by auto
      qed
    qed
  qed
qed

text \<open>
  What the wrapper does, for any normalizer: it returns \<^verbatim>\<open>ok\<close> when the validation
  passes and returns, not raises, the error object itself when the validation raises a
  \<^verbatim>\<open>UTMUPSError\<close>; a coordinate of no accepted shape gives the error that names the
  accepted shapes. Its only handler is for \<^verbatim>\<open>UTMUPSError\<close>: an error that leaves it is
  not of that class and was raised by the normalizer, by the comparison of a str zone
  or by \<^verbatim>\<open>float\<close>.
\<close>

theorem utmupsValidateOK_returns:
  "(utmupsValidate t coord falsed False UTMUPSError = Inr () \<longrightarrow>
      utmupsValidateOK t coord falsed ok = Inr (Passed ok)) \<and>
   (\<forall>x. utmupsValidate t coord falsed False UTMUPSError = Inl x \<and> cls x = UTMUPSError \<longrightarrow>
      utmupsValidateOK t coord falsed ok = Inr (Failed x)) \<and>
   (coord6 coord falsed = None \<longrightarrow>
      utmupsValidateOK t coord falsed ok =
        Inr (Failed (Exc UTMUPSError (Isnot coord acceptable)))) \<and>
   (\<forall>x. utmupsValidateOK t coord falsed ok = Inl x \<longrightarrow>
      cls x \<noteq> UTMUPSError \<and>
      utmupsValidate t coord falsed False UTMUPSError = Inl x \<and>
      (\<exists>zone hemi e n band enMM.
         coord6 coord falsed = Some (zone, hemi, e, n, band, enMM) \<and>
         (t zone band hemi = Inl x \<or>
          (\<exists>str B h. t zone band hemi = Inr (ZStr str, B, h) \<and> cls x = TypeError) \<or>
          (enMM \<and> (\<exists>c m. (e = NoFloat c m \<or> n = NoFloat c m) \<and>
                       c \<noteq> TypeError \<and> c \<noteq> ValueError \<and> x = Exc c (Message m))))))"
proof -
  have a: "utmupsValidate t coord falsed False UTMUPSError = Inr () \<longrightarrow>
      utmupsValidateOK t coord falsed ok = Inr (Passed ok)"
    by (simp add: utmupsValidateOK_def)
  have b: "\<forall>x. utmupsValidate t coord falsed False UTMUPSError = Inl x \<and> cls x = UTMUPSError \<longrightarrow>
      utmupsValidateOK t coord falsed ok = Inr (Failed x)"
    by (simp add: utmupsValidateOK_def)
  have c: "coord6 coord falsed = None \<longrightarrow>
      utmupsValidateOK t coord falsed ok =
        Inr (Failed (Exc UTMUPSError (Isnot coord acceptable)))"
    by (simp add: utmupsValidateOK_def utmupsValidate_shape)
  have d: "\<forall>x. utmupsValidateOK t coord falsed ok = Inl x \<longrightarrow>
      cls x \<noteq> UTMUPSError \<and>
      utmupsValidate t coord falsed False UTMUPSError = Inl x \<and>
      (\<exists>zone hemi e n band enMM.
         coord6 coord falsed = Some (zone, hemi, e, n, band, enMM) \<and>
         (t zone band hemi = Inl x \<or>
          (\<exists>str B h. t zone band hemi = Inr (ZStr str, B, h) \<and> cls x = TypeError) \<or>
          (enMM \<and> (\<exists>c m. (e = NoFloat c m \<or> n = NoFloat c m) \<and>
                       c \<noteq> TypeError \<and> c \<noteq> ValueError \<and> x = Exc c (Message m)))))"
  proof (intro allI impI)
    fix x
    assume r: "utmupsValidateOK t coord falsed ok = Inl x"
    then have v: "utmupsValidate t coord falsed False UTMUPSError = Inl x"
      and k: "cls x \<noteq> UTMUPSError"
      by (auto simp: utmupsValidateOK_def split: sum.splits if_splits)
    from utmupsValidate_raises [OF v] k v
    show "cls x \<noteq> UTMUPSError \<and>
      utmupsValidate t coord falsed False UTMUPSError = Inl x \<and>
      (\<exists>zone hemi e n band enMM.
         coord6 coord falsed = Some (zone, hemi, e, n, band, enMM) \<and>
         (t zone band hemi = Inl x \<or>
          (\<exists>str B h. t zone band hemi = Inr (ZStr str, B, h) \<and> cls x = TypeError) \<or>
          (enMM \<and> (\<exists>c m. (e = NoFloat c m \<or> n = NoFloat c m) \<and>
                       c \<noteq> TypeError \<and> c \<noteq> ValueError \<and> x = Exc c (Message m)))))"
      by simp
  qed
  from a b c d show ?thesis by blast
qed

text \<open>
  A plain pair of numbers, the coordinate (31, N, 500000, 4649776, U) and the same with
  the easting 0.
\<close>

theorem utmupsValidateOK_returns_witness:
  "utmupsValidateOK to3zBhp_normal (Other [Number (Float 1), Number (Float 2)]) False True =
     Inr (Failed (Exc UTMUPSError
            (Isnot (Other [Number (Float 1), Number (Float 2)])
               [''Utm'', ''Ups'', ''UtmUps5Tuple'', ''UtmUps8Tuple'']))) \<and>
   utmupsValidateOK to3zBhp_normal
     (UtmUps5Tuple (ZInt 31) ''N'' (Number (Float 500000)) (Number (Float 4649776)) ''U'')
     True True = Inr (Passed True) \<and>
   utmupsValidateOK to3zBhp_normal
     (UtmUps5Tuple (ZInt 31) ''N'' (Number (Float 0)) (Number (Float 4649776)) ''U'')
     True True =
     Inr (Failed (Exc UTMUPSError
            (Outside ''easting'' (Number (Float 0)) ''UTM'' 100000 900000)))"
proof -
  have c1: "coord6 (UtmUps5Tuple (ZInt 31) ''N'' (Number (Float 500000))
              (Number (Float 4649776)) ''U'') True =
            Some (ZInt 31, ''N'', Number (Float 500000), Number (Float 4649776), ''U'', True)"
    and c2: "coord6 (UtmUps5Tuple (ZInt 31) ''N'' (Number (Float 0))
              (Number (Float 4649776)) ''U'') True =
            Some (ZInt 31, ''N'', Number (Float 0), Number (Float 4649776), ''U'', True)"
    by simp_all
  have v1: "utmupsValidate to3zBhp_normal
     (UtmUps5Tuple (ZInt 31) ''N'' (Number (Float 500000)) (Number (Float 4649776)) ''U'')
     True False UTMUPSError = Inr ()"
    using utmupsValidate_normalized [where to3zBhp = to3zBhp_normal,
        OF c1 to3zBhp_normal_31, of False UTMUPSError] consistent_31_U_N
    by (simp add: en_check_def M_of_def U_of_def s_of_def UPS_ZONE_def Utm_rows find_py_NS_N)
  have v2: "utmupsValidate to3zBhp_normal
     (UtmUps5Tuple (ZInt 31) ''N'' (Number (Float 0)) (Number (Float 4649776)) ''U'')
     True False UTMUPSError =
     Inl (Exc UTMUPSError (Outside ''easting'' (Number (Float 0)) ''UTM'' 100000 900000))"
    using utmupsValidate_normalized [where to3zBhp = to3zBhp_normal,
        OF c2 to3zBhp_normal_31, of False UTMUPSError] consistent_31_U_N
    by (simp add: en_check_def M_of_def U_of_def s_of_def UPS_ZONE_def Utm_rows find_py_NS_N
          easting_str_def UTM_str_def)
  show ?thesis
    using utmupsValidateOK_returns [of to3zBhp_normal
        "Other [Number (Float 1), Number (Float 2)]" False True]
      utmupsValidateOK_returns [of to3zBhp_normal
        "UtmUps5Tuple (ZInt 31) ''N'' (Number (Float 500000)) (Number (Float 4649776)) ''U''"
        True True]
      utmupsValidateOK_returns [of to3zBhp_normal
        "UtmUps5Tuple (ZInt 31) ''N'' (Number (Float 0)) (Number (Float 4649776)) ''U''"
        True True]
      v1 v2
    by (simp add: acceptable_def)
qed

text \<open>
  Claim C6 is what the docstring of \<^verbatim>\<open>utmupsValidateOK\<close> promises, \<^verbatim>\<open>ok\<close> if validation
  passed and the \<^verbatim>\<open>UTMUPSError\<close> otherwise, and the code misses it. On the falsed tuple
  of zone 31 whose easting is an int too large for a float, such as \<^verbatim>\<open>10**400\<close>,
  \<^verbatim>\<open>float\<close> raises an \<^verbatim>\<open>OverflowError\<close>; \<^verbatim>\<open>_en\<close> catches \<^verbatim>\<open>TypeError\<close> and \<^verbatim>\<open>ValueError\<close>
  only, so the error leaves \<^verbatim>\<open>utmupsValidate\<close> and, not being a \<^verbatim>\<open>UTMUPSError\<close>, the
  wrapper too. On the same tuple with the easting \<^verbatim>\<open>'abc'\<close>, where \<^verbatim>\<open>float\<close> raises a
  \<^verbatim>\<open>ValueError\<close>, the wrapper returns the \<^verbatim>\<open>UTMUPSError\<close> for the easting, as the claim
  says.
\<close>

theorem utmupsValidateOK_overflow:
  "utmupsValidateOK to3zBhp_normal
     (UtmUps5Tuple (ZInt 31) ''N''
        (NoFloat OverflowError ''int too large to convert to float'')
        (Number (Float 0)) ''U'')
     True True =
   Inl (Exc OverflowError (Message ''int too large to convert to float'')) \<and>
   utmupsValidateOK to3zBhp_normal
     (UtmUps5Tuple (ZInt 31) ''N'' (NoFloat ValueError ''abc'') (Number (Float 0)) ''U'')
     True True =
   Inr (Failed (Exc UTMUPSError
          (Outside ''easting'' (NoFloat ValueError ''abc'') ''UTM'' 100000 900000)))"
proof -
  have c: "coord6 (UtmUps5Tuple (ZInt 31) ''N''
             (NoFloat OverflowError ''int too large to convert to float'')
             (Number (Float 0)) ''U'') True =
           Some (ZInt 31, ''N'', NoFloat OverflowError ''int too large to convert to float'',
                 Number (Float 0), ''U'', True)"
    and d: "coord6 (UtmUps5Tuple (ZInt 31) ''N'' (NoFloat ValueError ''abc'')
              (Number (Float 0)) ''U'') True =
            Some (ZInt 31, ''N'', NoFloat ValueError ''abc'', Number (Float 0), ''U'', True)"
    by simp_all
  have o: "utmupsValidate to3zBhp_normal
     (UtmUps5Tuple (ZInt 31) ''N''
        (NoFloat OverflowError ''int too large to convert to float'')
        (Number (Float 0)) ''U'')
     True False UTMUPSError =
   Inl (Exc OverflowError (Message ''int too large to convert to float''))"
    using utmupsValidate_normalized [where to3zBhp = to3zBhp_normal,
        OF c to3zBhp_normal_31, of False UTMUPSError] consistent_31_U_N
    by (simp add: en_check_def)
  have v: "utmupsValidate to3zBhp_normal
     (UtmUps5Tuple (ZInt 31) ''N'' (NoFloat ValueError ''abc'') (Number (Float 0)) ''U'')
     True False UTMUPSError =
   Inl (Exc UTMUPSError
          (Outside ''easting'' (NoFloat ValueError ''abc'') ''UTM'' 100000 900000))"
    using utmupsValidate_normalized [where to3zBhp = to3zBhp_normal,
        OF d to3zBhp_normal_31, of False UTMUPSError] consistent_31_U_N
    by (simp add: en_check_def M_of_def U_of_def s_of_def UPS_ZONE_def Utm_rows find_py_NS_N
          easting_str_def UTM_str_def)
  from o v show ?thesis
    by (simp add: utmupsValidateOK_def)
qed

subsection \<open>The classifier, the parser and the factory\<close>

text \<open>
  Claim C2, as the code has it, for any two classifiers. The result of the UTM
  classifier is taken first: if it returns, that is the result and the UPS classifier
  has no part in it. If it raises an error that is not a \<^verbatim>\<open>RangeError\<close>, such as the
  \<^verbatim>\<open>ValueError\<close> for a lat or lon that is no number, that error reaches the caller
  unchanged and there is no fallback. If it raises a \<^verbatim>\<open>RangeError\<close>, for whatever
  reason, the fallback is taken and the result is whatever the UPS classifier returns
  or raises. Hence every \<^verbatim>\<open>RangeError\<close> that reaches the caller was raised by the UPS
  classifier in the fallback.
\<close>

theorem utmupsZoneBand5_fallback:
  "(\<forall>r. utmZoneBand5 lat lon cmoff = Inr r \<longrightarrow>
      \<not> falls_back utmZoneBand5 lat lon cmoff \<and>
      utmupsZoneBand5 utmZoneBand5 upsZoneBand5 lat lon cmoff = Inr r) \<and>
   (\<forall>x. utmZoneBand5 lat lon cmoff = Inl x \<and> cls x \<noteq> RangeError \<longrightarrow>
      \<not> falls_back utmZoneBand5 lat lon cmoff \<and>
      utmupsZoneBand5 utmZoneBand5 upsZoneBand5 lat lon cmoff = Inl x) \<and>
   (\<forall>x. utmZoneBand5 lat lon cmoff = Inl x \<and> cls x = RangeError \<longrightarrow>
      falls_back utmZoneBand5 lat lon cmoff \<and>
      utmupsZoneBand5 utmZoneBand5 upsZoneBand5 lat lon cmoff = upsZoneBand5 lat lon) \<and>
   (\<forall>x. utmupsZoneBand5 utmZoneBand5 upsZoneBand5 lat lon cmoff = Inl x \<and>
        cls x = RangeError \<longrightarrow>
      falls_back utmZoneBand5 lat lon cmoff \<and> upsZoneBand5 lat lon = Inl x)"
  by (cases "utmZoneBand5 lat lon cmoff")
     (auto simp: utmupsZoneBand5_def falls_back_def)

text \<open>
  The documented classifiers at some points: 45 N 9 E lies in zone 32, band T; 84.5 N
  is outside UTM and in the UPS band Z; a latitude of 95 is outside the valid range.
\<close>

lemma utmZoneBand5_doc_45_9:
  "utmZoneBand5_doc True (Number (Float 45)) (Number (Float 9)) False =
     Inr (ZInt 32, ''T'', ''N'', 45, 9)"
  by (simp add: utmZoneBand5_doc_def clip_def utm_Bands_def)

lemma utmZoneBand5_doc_84:
  "utmZoneBand5_doc True (Number (Float (169 / 2))) (Number (Float 0)) False =
     Inl (Exc RangeError (Message ''outside UTM range''))"
  by (simp add: utmZoneBand5_doc_def clip_def)

lemma upsZoneBand5_doc_84:
  "upsZoneBand5_doc True (Number (Float (169 / 2))) (Number (Float 0)) =
     Inr (ZInt 0, ''Z'', ''N'', 169 / 2, 0)"
  by (simp add: upsZoneBand5_doc_def clip_def UPS_ZONE_def)

lemma utmZoneBand5_doc_95:
  "utmZoneBand5_doc True (Number (Float 95)) (Number (Float 0)) False =
     Inl (Exc RangeError (Message ''lat''))"
  by (simp add: utmZoneBand5_doc_def clip_def)

lemma upsZoneBand5_doc_95:
  "upsZoneBand5_doc True (Number (Float 95)) (Number (Float 0)) =
     Inl (Exc RangeError (Message ''lat''))"
  by (simp add: upsZoneBand5_doc_def clip_def)

lemma utmZoneBand5_doc_abc:
  "utmZoneBand5_doc True (NoFloat ValueError ''abc'') (Number (Float 0)) False =
     Inl (Exc ValueError (Message ''lat''))"
  by (simp add: utmZoneBand5_doc_def clip_def)

text \<open>
  With strict range checking: 45 N 9 E is classified by UTM, 84.5 N by UPS after the
  fallback, and a lat that is no number raises the \<^verbatim>\<open>ValueError\<close> without a fallback.
\<close>

theorem utmupsZoneBand5_fallback_witness:
  "utmupsZoneBand5 (utmZoneBand5_doc True) (upsZoneBand5_doc True)
     (Number (Float 45)) (Number (Float 9)) False = Inr (ZInt 32, ''T'', ''N'', 45, 9) \<and>
   utmupsZoneBand5 (utmZoneBand5_doc True) (upsZoneBand5_doc True)
     (Number (Float (169 / 2))) (Number (Float 0)) False =
     Inr (ZInt 0, ''Z'', ''N'', 169 / 2, 0) \<and>
   utmupsZoneBand5 (utmZoneBand5_doc True) (upsZoneBand5_doc True)
     (NoFloat ValueError ''abc'') (Number (Float 0)) False =
     Inl (Exc ValueError (Message ''lat'')) \<and>
   \<not> falls_back (utmZoneBand5_doc True) (NoFloat ValueError ''abc'') (Number (Float 0)) False"
  using utmupsZoneBand5_fallback [of "utmZoneBand5_doc True" "Number (Float 45)"
      "Number (Float 9)" False "upsZoneBand5_doc True"]
    utmupsZoneBand5_fallback [of "utmZoneBand5_doc True" "Number (Float (169 / 2))"
      "Number (Float 0)" False "upsZoneBand5_doc True"]
    utmupsZoneBand5_fallback [of "utmZoneBand5_doc True" "NoFloat ValueError ''abc''"
      "Number (Float 0)" False "upsZoneBand5_doc True"]
  by (simp add: utmZoneBand5_doc_45_9 utmZoneBand5_doc_84 upsZoneBand5_doc_84
        utmZoneBand5_doc_abc)

text \<open>
  Claim C2 as stated fails. The docstring of \<^verbatim>\<open>utmupsZoneBand5\<close> has a \<^verbatim>\<open>RangeError\<close>
  both for a lat outside the UTM or UPS bands and for a lat or lon outside the valid
  range under strict range checking: the two are one kind of error, and
  \<^verbatim>\<open>except RangeError\<close> cannot tell them apart. The latitude 95 is no valid angle, the
  UTM classifier refuses it with a \<^verbatim>\<open>RangeError\<close>, the fallback is taken, and what the
  caller gets is the outcome of the UPS classifier.
\<close>

theorem utmupsZoneBand5_counterexample:
  "\<not> valid_angle 90 (Number (Float 95)) \<and>
   falls_back (utmZoneBand5_doc True) (Number (Float 95)) (Number (Float 0)) False \<and>
   utmupsZoneBand5 (utmZoneBand5_doc True) (upsZoneBand5_doc True)
     (Number (Float 95)) (Number (Float 0)) False =
     upsZoneBand5_doc True (Number (Float 95)) (Number (Float 0)) \<and>
   utmupsZoneBand5 (utmZoneBand5_doc True) (upsZoneBand5_doc True)
     (Number (Float 95)) (Number (Float 0)) False = Inl (Exc RangeError (Message ''lat''))"
  by (simp add: utmupsZoneBand5_def falls_back_def valid_angle_def utmZoneBand5_doc_95
        upsZoneBand5_doc_95)

text \<open>
  Claim C7, for any two parsers. A parser fails by raising its error, \<^verbatim>\<open>UTMError\<close> or
  \<^verbatim>\<open>UPSError\<close>. If the UTM parser returns, \<^verbatim>\<open>parseUTMUPS5\<close> returns its result, whatever
  the UPS parser would do. If the UTM parser fails, the result is that of the UPS
  parser if it returns, and if it fails too, a \<^verbatim>\<open>UTMUPSError\<close> that carries the input
  string and the message of the error of the UPS parser. An error of any other class is
  no concern of \<^verbatim>\<open>parseUTMUPS5\<close> and passes through; after such an error of the UTM
  parser the UPS parser is not tried.
\<close>

theorem parseUTMUPS5_dispatch:
  "(\<forall>u. parseUTM5 s datum Utm_class name = Inr u \<longrightarrow>
      parseUTMUPS5 parseUTM5 parseUPS5 s datum Utm_class Ups_class name = Inr u) \<and>
   (\<forall>x u. parseUTM5 s datum Utm_class name = Inl x \<and> cls x = UTMError \<and>
        parseUPS5 s datum Ups_class name = Inr u \<longrightarrow>
      parseUTMUPS5 parseUTM5 parseUPS5 s datum Utm_class Ups_class name = Inr u) \<and>
   (\<forall>x y. parseUTM5 s datum Utm_class name = Inl x \<and> cls x = UTMError \<and>
        parseUPS5 s datum Ups_class name = Inl y \<and> (cls y = UPSError \<or> cls y = UTMError) \<longrightarrow>
      parseUTMUPS5 parseUTM5 parseUPS5 s datum Utm_class Ups_class name =
        Inl (Exc UTMUPSError (Unparsed s y))) \<and>
   (\<forall>x y. parseUTM5 s datum Utm_class name = Inl x \<and> cls x = UTMError \<and>
        parseUPS5 s datum Ups_class name = Inl y \<and> cls y \<noteq> UPSError \<and> cls y \<noteq> UTMError \<longrightarrow>
      parseUTMUPS5 parseUTM5 parseUPS5 s datum Utm_class Ups_class name = Inl y) \<and>
   (\<forall>x. parseUTM5 s datum Utm_class name = Inl x \<and> cls x \<noteq> UTMError \<longrightarrow>
      parseUTMUPS5 parseUTM5 parseUPS5 s datum Utm_class Ups_class name =
        (if cls x = UPSError then Inl (Exc UTMUPSError (Unparsed s x)) else Inl x))"
  by (cases "parseUTM5 s datum Utm_class name"; cases "parseUPS5 s datum Ups_class name")
     (auto simp: parseUTMUPS5_def)

text \<open>
  Both parsers failing, the UTM parser failing alone, and the UTM parser returning.
\<close>

theorem parseUTMUPS5_dispatch_witness:
  "parseUTMUPS5 (\<lambda>s d c n. Inl (Exc UTMError (Message ''no UTM'')))
     (\<lambda>s d c n. Inl (Exc UPSError (Message ''no UPS''))) ''31 X 1 2'' () () () '''' =
     (Inl (Exc UTMUPSError (Unparsed ''31 X 1 2'' (Exc UPSError (Message ''no UPS''))))
        :: exc + coord) \<and>
   parseUTMUPS5 (\<lambda>s d c n. Inl (Exc UTMError (Message ''no UTM'')))
     (\<lambda>s d c n. Inr (Ups (ZInt 0) ''N'' (Number (Float 2000000)) (Number (Float 2000000))
                      ''Z'' True))
     ''00Z N 2000000 2000000'' () () () '''' =
     Inr (Ups (ZInt 0) ''N'' (Number (Float 2000000)) (Number (Float 2000000)) ''Z'' True) \<and>
   parseUTMUPS5
     (\<lambda>s d c n. Inr (Utm (ZInt 31) ''N'' (Number (Float 500000)) (Number (Float 0)) ''N''
                      True))
     (\<lambda>s d c n. Inl (Exc UPSError (Message ''no UPS''))) ''31 N 500000 0'' () () () '''' =
     Inr (Utm (ZInt 31) ''N'' (Number (Float 500000)) (Number (Float 0)) ''N'' True)"
  using parseUTMUPS5_dispatch [of "\<lambda>s d c n. Inl (Exc UTMError (Message ''no UTM''))"
      "''31 X 1 2''" "()" "()" "''''" "\<lambda>s d c n. Inl (Exc UPSError (Message ''no UPS''))" "()"]
    parseUTMUPS5_dispatch [of "\<lambda>s d c n. Inl (Exc UTMError (Message ''no UTM''))"
      "''00Z N 2000000 2000000''" "()" "()" "''''"
      "\<lambda>s d c n. Inr (Ups (ZInt 0) ''N'' (Number (Float 2000000)) (Number (Float 2000000))
                      ''Z'' True)" "()"]
    parseUTMUPS5_dispatch [of
      "\<lambda>s d c n. Inr (Utm (ZInt 31) ''N'' (Number (Float 500000)) (Number (Float 0)) ''N''
                      True)"
      "''31 N 500000 0''" "()" "()" "''''"
      "\<lambda>s d c n. Inl (Exc UPSError (Message ''no UPS''))" "()"]
  by simp

text \<open>
  Claim C8, for any normalizer and any two classes. \<^verbatim>\<open>UtmUps\<close> normalizes the zone,
  band and hemisphere first; an error of the normalizer is the result. Otherwise the
  coordinate is built by the class \<^verbatim>\<open>Ups\<close> if the normalized zone is the int 0 or the
  str "00", the two forms of the UPS zone, and by the class \<^verbatim>\<open>Utm\<close> if it is anything
  else, in both cases from the normalized zone, hemisphere and band.
\<close>

theorem UtmUps_delegates:
  "(\<forall>x. to3zBhp zone band hemipole = Inl x \<longrightarrow>
      UtmUps to3zBhp Utm_class Ups_class zone hemipole easting northing band datum falsed
        name = Inl x) \<and>
   (\<forall>z B hp. to3zBhp zone band hemipole = Inr (z, B, hp) \<longrightarrow>
      UtmUps to3zBhp Utm_class Ups_class zone hemipole easting northing band datum falsed
        name =
        (if z = ZInt 0 \<or> z = ZStr ''00''
         then Ups_class z hp easting northing B datum falsed name
         else Utm_class z hp easting northing B datum falsed name)) \<and>
   UPS_ZONE = 0 \<and> UPS_ZONE_STR = ''00''"
  by (auto simp: UtmUps_def UPS_ZONE_def UPS_ZONE_STR_def)

text \<open>
  The zone 0, the zone "00" left as it is by a normalizer, and the zone 31, with the
  two classes building the object they are named after.
\<close>

theorem UtmUps_delegates_witness:
  "UtmUps to3zBhp_normal (\<lambda>z hp e n B d f nm. Inr (Utm z hp e n B f))
     (\<lambda>z hp e n B d f nm. Inr (Ups z hp e n B f))
     (ZInt 0) ''N'' (Number (Float 2000000)) (Number (Float 2000000)) ''Z'' () True '''' =
     Inr (Ups (ZInt 0) ''N'' (Number (Float 2000000)) (Number (Float 2000000)) ''Z'' True) \<and>
   UtmUps (\<lambda>zone band hemipole. Inr (zone, band, hemipole))
     (\<lambda>z hp e n B d f nm. Inr (Utm z hp e n B f))
     (\<lambda>z hp e n B d f nm. Inr (Ups z hp e n B f))
     (ZStr ''00'') ''N'' (Number (Float 2000000)) (Number (Float 2000000)) ''Z'' () True '''' =
     Inr (Ups (ZStr ''00'') ''N'' (Number (Float 2000000)) (Number (Float 2000000)) ''Z''
            True) \<and>
   UtmUps to3zBhp_normal (\<lambda>z hp e n B d f nm. Inr (Utm z hp e n B f))
     (\<lambda>z hp e n B d f nm. Inr (Ups z hp e n B f))
     (ZInt 31) ''N'' (Number (Float 500000)) (Number (Float 0)) ''N'' () True '''' =
     Inr (Utm (ZInt 31) ''N'' (Number (Float 500000)) (Number (Float 0)) ''N'' True)"
  using UtmUps_delegates [where to3zBhp = to3zBhp_normal and zone = "ZInt 0"
      and band = "''Z''" and hemipole = "''N''"
      and Utm_class = "\<lambda>z hp e n B d f nm. Inr (Utm z hp e n B f)"
      and Ups_class = "\<lambda>z hp e n B d f nm. Inr (Ups z hp e n B f)"
      and easting = "Number (Float 2000000)" and northing = "Number (Float 2000000)"
      and datum = "()" and falsed = True and name = "''''"]
    UtmUps_delegates [where to3zBhp = "\<lambda>zone band hemipole. Inr (zone, band, hemipole)"
      and zone = "ZStr ''00''" and band = "''Z''" and hemipole = "''N''"
      and Utm_class = "\<lambda>z hp e n B d f nm. Inr (Utm z hp e n B f)"
      and Ups_class = "\<lambda>z hp e n B d f nm. Inr (Ups z hp e n B f)"
      and easting = "Number (Float 2000000)" and northing = "Number (Float 2000000)"
      and datum = "()" and falsed = True and name = "''''"]
    UtmUps_delegates [where to3zBhp = to3zBhp_normal and zone = "ZInt 31"
      and band = "''N''" and hemipole = "''N''"
      and Utm_class = "\<lambda>z hp e n B d f nm. Inr (Utm z hp e n B f)"
      and Ups_class = "\<lambda>z hp e n B d f nm. Inr (Ups z hp e n B f)"
      and easting = "Number (Float 500000)" and northing = "Number (Float 0)"
      and datum = "()" and falsed = True and name = "''''"]
  by (simp add: to3zBhp_normal_def)

end
